theory Spec2Isabelle
  imports Complex_Main
begin

section \<open>Floating-point values\<close>

text \<open>
  A float64 is a real number or one of the three non-finite values. The finite values
  of the program are the reals \<open>n * 2^j\<close> with \<open>|n| < 2^53\<close> and \<open>-1074 \<le> j \<le> 971\<close>.
  Signed zeros are not distinguished (a zero divisor is \<open>+0.0\<close>).
\<close>

datatype fl = Fin real | PInf | NInf | NaN

fun isfinite :: "fl \<Rightarrow> bool" where
  "isfinite (Fin _) = True"
| "isfinite _ = False"

text \<open>
  IEEE 754 rounding to nearest, ties to even, of a real number to binary64:
  \<open>ulp_exponent x\<close> is the exponent of the last mantissa bit (53 bits, and never below
  the subnormal exponent -1074); the magnitude is rounded to a multiple of
  \<open>2^(ulp_exponent x)\<close>; a result of \<open>2^1024\<close> or more is an infinity.
\<close>

definition ulp_exponent :: "real \<Rightarrow> int" where
  "ulp_exponent x = max (\<lfloor>log 2 \<bar>x\<bar>\<rfloor> - 52) (- 1074)"

definition round_half_even :: "real \<Rightarrow> int" where
  "round_half_even q =
     (let f = \<lfloor>q\<rfloor>
      in if q - of_int f < 1 / 2 then f
         else if 1 / 2 < q - of_int f then f + 1
         else if even f then f else f + 1)"

definition round64 :: "real \<Rightarrow> fl" where
  "round64 x =
     (if x = 0 then Fin 0
      else
        let e = ulp_exponent x;
            y = of_int (round_half_even (\<bar>x\<bar> / 2 powi e)) * 2 powi e
        in if 2 ^ 1024 \<le> y then (if 0 < x then PInf else NInf)
           else Fin (sgn x * y))"

fun fl_neg :: "fl \<Rightarrow> fl" where
  "fl_neg (Fin a) = Fin (- a)"
| "fl_neg PInf = NInf"
| "fl_neg NInf = PInf"
| "fl_neg NaN = NaN"

text \<open>
  Addition, multiplication and division round the exact result. Adding zero,
  multiplying by zero or one and dividing by one are exact on every float64; the model
  makes them exact on every operand.
\<close>

fun fl_add :: "fl \<Rightarrow> fl \<Rightarrow> fl" where
  "fl_add (Fin a) (Fin b) =
     (if b = 0 then Fin a else if a = 0 then Fin b else round64 (a + b))"
| "fl_add NaN _ = NaN"
| "fl_add _ NaN = NaN"
| "fl_add PInf NInf = NaN"
| "fl_add NInf PInf = NaN"
| "fl_add PInf _ = PInf"
| "fl_add _ PInf = PInf"
| "fl_add NInf _ = NInf"
| "fl_add _ NInf = NInf"

definition fl_sub :: "fl \<Rightarrow> fl \<Rightarrow> fl" where
  "fl_sub a b = fl_add a (fl_neg b)"

text \<open>The sign of an infinity times a finite factor; zero times infinity is NaN.\<close>

fun inf_times :: "bool \<Rightarrow> real \<Rightarrow> fl" where
  "inf_times positive b =
     (if b = 0 then NaN else if (0 < b) = positive then PInf else NInf)"

fun fl_mul :: "fl \<Rightarrow> fl \<Rightarrow> fl" where
  "fl_mul (Fin a) (Fin b) =
     (if a = 0 \<or> b = 0 then Fin 0
      else if a = 1 then Fin b else if b = 1 then Fin a else round64 (a * b))"
| "fl_mul NaN _ = NaN"
| "fl_mul _ NaN = NaN"
| "fl_mul PInf (Fin b) = inf_times True b"
| "fl_mul NInf (Fin b) = inf_times False b"
| "fl_mul (Fin a) PInf = inf_times True a"
| "fl_mul (Fin a) NInf = inf_times False a"
| "fl_mul PInf PInf = PInf"
| "fl_mul NInf NInf = PInf"
| "fl_mul PInf NInf = NInf"
| "fl_mul NInf PInf = NInf"

fun fl_div :: "fl \<Rightarrow> fl \<Rightarrow> fl" where
  "fl_div (Fin a) (Fin b) =
     (if b = 1 then Fin a
      else if b \<noteq> 0 then round64 (a / b)
      else if a = 0 then NaN else if 0 < a then PInf else NInf)"
| "fl_div NaN _ = NaN"
| "fl_div _ NaN = NaN"
| "fl_div (Fin a) _ = Fin 0"
| "fl_div PInf (Fin b) = (if 0 \<le> b then PInf else NInf)"
| "fl_div NInf (Fin b) = (if 0 \<le> b then NInf else PInf)"
| "fl_div _ _ = NaN"

fun fl_abs :: "fl \<Rightarrow> fl" where
  "fl_abs (Fin a) = Fin \<bar>a\<bar>"
| "fl_abs NaN = NaN"
| "fl_abs _ = PInf"

text \<open>
  The sum of a sequence of floats (\<^verbatim>\<open>np.sum\<close>, and the sums inside \<^verbatim>\<open>dot\<close> and \<^verbatim>\<open>trace\<close>),
  accumulated from the left: \<^verbatim>\<open>res = 0.; for x in xs: res += x\<close>. NumPy's pairwise
  reduction and BLAS may add in another order, which changes a sum by rounding only.
  Where a property below gives the value of a sum it is this left-to-right value; the
  data of the examples are such that every order gives the same float64.
\<close>

fun fl_sum_from :: "fl \<Rightarrow> fl list \<Rightarrow> fl" where
  "fl_sum_from res [] = res"
| "fl_sum_from res (x # xs) = fl_sum_from (fl_add res x) xs"

definition fl_sum :: "fl list \<Rightarrow> fl" where
  "fl_sum xs = fl_sum_from (Fin 0) xs"

section \<open>Errors\<close>

text \<open>
  Every exception the modelled Python can raise is a value of \<open>error\<close>; a function that
  can raise returns \<open>error + 'a\<close> with \<open>Inl\<close> for the exception.
  \<open>ValueError_Imaginary_component m\<close> is \<^verbatim>\<open>ValueError('Imaginary component {}'.format(m))\<close>.
\<close>

datatype error =
    StopIteration
  | OSError string
  | NameError string
  | UnboundLocalError string
  | AssertionError string
  | IndexError
  | ValueError string
  | ValueError_Imaginary_component fl

section \<open>training.py: save\_model\<close>

text \<open>
  \<^verbatim>\<open>MODEL_FILENAME = "model.pt"\<close> and \<^verbatim>\<open>META_FILENAME = "specs.json"\<close> (training.py, lines 16-17).
\<close>

definition MODEL_FILENAME :: string where
  "MODEL_FILENAME = ''model.pt''"

definition META_FILENAME :: string where
  "META_FILENAME = ''specs.json''"

text \<open>A JSON value as far as the metadata needs it; a dict is an association list.\<close>

datatype jvalue = JInt int | JStr string | JList "jvalue list"

type_synonym metadata = "(string \<times> jvalue) list"

datatype device = Cpu | Cuda nat

text \<open>
  A model (\<^verbatim>\<open>nn.Module\<close>) as \<^verbatim>\<open>save_model\<close> uses it: the three attributes it reads and
  the named parameters, each with its weights and the device it lives on.
\<close>

record 'w module =
  img_size :: "int list"
  latent_dim :: int
  model_type :: string
  parameters :: "(string \<times> 'w \<times> device) list"

text \<open>What a file holds: the JSON object \<^verbatim>\<open>json.dump\<close> wrote or the state \<^verbatim>\<open>torch.save\<close> wrote.\<close>

datatype 'w file_content = JsonObject metadata | TorchState "(string \<times> 'w) list"

text \<open>
  The file system: which paths \<^verbatim>\<open>open(path, 'w')\<close> can open (the directory exists and is
  writable), and the content of each file.
\<close>

record 'w filesystem =
  writable :: "string \<Rightarrow> bool"
  files :: "string \<rightharpoonup> 'w file_content"

text \<open>\<^verbatim>\<open>os.path.join(a, b)\<close> of posixpath, for two components.\<close>

definition os_path_join :: "string \<Rightarrow> string \<Rightarrow> string" where
  "os_path_join a b =
     (if b \<noteq> [] \<and> hd b = CHR ''/'' then b
      else if a = [] \<or> last a = CHR ''/'' then a @ b
      else a @ ''/'' @ b)"

text \<open>\<^verbatim>\<open>open(path, 'w')\<close> followed by one write and the close of the \<^verbatim>\<open>with\<close> block.\<close>

definition write_file :: "'w filesystem \<Rightarrow> string \<Rightarrow> 'w file_content \<Rightarrow> error + 'w filesystem" where
  "write_file fs path content =
     (if writable fs path then Inr (fs\<lparr>files := (files fs)(path \<mapsto> content)\<rparr>)
      else Inl (OSError path))"

definition state_dict :: "'w module \<Rightarrow> (string \<times> 'w) list" where
  "state_dict model = map (\<lambda>(name, w, d). (name, w)) (parameters model)"

definition to_device :: "device \<Rightarrow> 'w module \<Rightarrow> 'w module" where
  "to_device d model =
     model\<lparr>parameters := map (\<lambda>(name, w, _). (name, w, d)) (parameters model)\<rparr>"

text \<open>
  \<^verbatim>\<open>save_model(model, directory, metadata=None, filename=MODEL_FILENAME)\<close>, training.py lines
  145-176. The state is the file system and the model (moved to the CPU and back).
  \<^verbatim>\<open>
    device = next(model.parameters()).device
    model.cpu()
    if metadata is None:
        metadata = dict(img_size=model.img_size, latent_dim=model.latent_dim,
                        model_type=model.model_type)
    path_to_metadata = os.path.join(directory, filename)
    with open(path_to_metadata, 'w') as f:
        json.dump(metadata, f, indent=4, sort_keys=True)
    path_to_model = os.path.join(directory, filename)
    torch.save(model.state_dict(), path_to_model)
    model.to(device)  # restore device
  \<close>
\<close>

definition save_model ::
  "'w filesystem \<Rightarrow> 'w module \<Rightarrow> string \<Rightarrow> metadata option \<Rightarrow> string
     \<Rightarrow> error + ('w filesystem \<times> 'w module)" where
  "save_model fs model directory metadata filename =
     (case parameters model of
        [] \<Rightarrow> Inl StopIteration
      | (_, _, device) # _ \<Rightarrow>
          let model = to_device Cpu model;
              metadata = (case metadata of
                  None \<Rightarrow> [(''img_size'', JList (map JInt (img_size model))),
                            (''latent_dim'', JInt (latent_dim model)),
                            (''model_type'', JStr (model_type model))]
                | Some md \<Rightarrow> md);
              path_to_metadata = os_path_join directory filename
          in (case write_file fs path_to_metadata (JsonObject metadata) of
                Inl e \<Rightarrow> Inl e
              | Inr fs \<Rightarrow>
                  let path_to_model = os_path_join directory filename
                  in (case write_file fs path_to_model (TorchState (state_dict model)) of
                        Inl e \<Rightarrow> Inl e
                      | Inr fs \<Rightarrow> Inr (fs, to_device device model))))"

text \<open>A file system with no files where every path can be opened, and a small model.\<close>

definition empty_fs :: "nat filesystem" where
  "empty_fs = \<lparr>writable = (\<lambda>_. True), files = Map.empty\<rparr>"

definition tiny_vae :: "nat module" where
  "tiny_vae = \<lparr>img_size = [1, 32, 32], latent_dim = 10, model_type = ''Burgess'',
                parameters = [(''w'', 7, Cpu)]\<rparr>"

section \<open>Arrays\<close>

text \<open>
  A two-dimensional array is its number of columns and its rows (so that an array with
  no rows still has a width); it is well formed when every row has that many entries.
\<close>

datatype matrix = Matrix (ncols: nat) (rows: "fl list list")

definition nrows :: "matrix \<Rightarrow> nat" where
  "nrows m = length (rows m)"

definition wf_matrix :: "matrix \<Rightarrow> bool" where
  "wf_matrix m = list_all (\<lambda>r. length r = ncols m) (rows m)"

text \<open>\<^verbatim>\<open>np.empty((n, d))\<close>: an array of whatever the memory held, here \<open>junk i j\<close>.\<close>

definition np_empty :: "(nat \<Rightarrow> nat \<Rightarrow> fl) \<Rightarrow> nat \<Rightarrow> nat \<Rightarrow> matrix" where
  "np_empty junk n d = Matrix d (map (\<lambda>i. map (junk i) [0..<d]) [0..<n])"

text \<open>
  A four-dimensional tensor (batch, channels, height, width): the three inner sizes and
  the samples, each a list of channels, each channel a list of rows.
\<close>

datatype tensor4 =
  Tensor4 (size1: nat) (size2: nat) (size3: nat) (samples: "fl list list list list")

definition size0 :: "tensor4 \<Rightarrow> nat" where
  "size0 t = length (samples t)"

section \<open>utils/fid.py: \_get\_activations\<close>

text \<open>
  The names bound in the module \<^verbatim>\<open>utils/fid.py\<close> when one of its functions runs: the names
  its \<^verbatim>\<open>import\<close> statements bind (lines 2-24), its two constants (lines 26-27) and its
  classes and functions. A name that is neither here nor a builtin raises \<^verbatim>\<open>NameError\<close>.
\<close>

definition fid_globals :: "string list" where
  "fid_globals =
     [''datasets'', ''data'', ''nn'', ''ToTensor'', ''np'', ''torch'', ''TF'', ''linalg'',
      ''models'', ''transforms'', ''SubsetRandomSampler'', ''SequentialSampler'',
      ''get_dataloaders'', ''get_img_size'', ''DATASETS'', ''Dataset'', ''TensorDataset'',
      ''DataLoader'', ''utils'', ''tqdm'', ''INCEPTION_V3'', ''FID_EVAL_SIZE'',
      ''CustomTensorDataset'', ''NoneTransform'', ''_get_activations'',
      ''_calculate_frechet_distance'', ''_calculate_activation_statistics'',
      ''get_fid_value'']"

fun lookup_global :: "string \<Rightarrow> error + unit" where
  "lookup_global name = (if name \<in> set fid_globals then Inr () else Inl (NameError name))"

text \<open>
  \<^verbatim>\<open>torch.nn.functional.adaptive_avg_pool2d(pred, output_size=(1, 1))\<close>: every channel
  becomes the mean of its entries. This is what the call would compute if the name were
  bound in the module.
\<close>

definition adaptive_avg_pool2d :: "tensor4 \<Rightarrow> tensor4" where
  "adaptive_avg_pool2d t =
     Tensor4 (size1 t) 1 1
       (map (map (\<lambda>ch. [[fl_div (fl_sum (concat ch)) (Fin (real (size2 t * size3 t)))]]))
          (samples t))"

text \<open>
  \<^verbatim>\<open>pred.squeeze(3).squeeze(2).cpu().numpy()\<close> on a tensor whose last two sizes are 1 (the
  only tensors that reach line 79): the (batch, channels) array of the single entries.
\<close>

definition squeeze32 :: "tensor4 \<Rightarrow> matrix" where
  "squeeze32 t = Matrix (size1 t) (map (map (\<lambda>ch. hd (hd ch))) (samples t))"

text \<open>
  The slice assignment \<^verbatim>\<open>arr[start:start + v.shape[0]] = v\<close> of NumPy. The slice is
  clipped to the array; \<open>v\<close> must broadcast to the slice's shape (each of its two sizes
  equal to the slice's or equal to 1), else NumPy raises \<^verbatim>\<open>ValueError\<close>.
\<close>

fun broadcast_to :: "nat \<Rightarrow> nat \<Rightarrow> matrix \<Rightarrow> fl list list" where
  "broadcast_to n d v =
     (let rs = (if ncols v = d then rows v else map (\<lambda>r. replicate d (hd r)) (rows v))
      in if nrows v = n then rs else replicate n (hd rs))"

fun assign_rows :: "matrix \<Rightarrow> nat \<Rightarrow> matrix \<Rightarrow> error + matrix" where
  "assign_rows arr start v =
     (let lo = min start (nrows arr);
          hi = min (start + nrows v) (nrows arr)
      in if (nrows v = hi - lo \<or> nrows v = 1) \<and> (ncols v = ncols arr \<or> ncols v = 1)
         then Inr (Matrix (ncols arr)
                (take lo (rows arr) @ broadcast_to (hi - lo) (ncols arr) v @ drop hi (rows arr)))
         else Inl (ValueError ''could not broadcast input array''))"

text \<open>
  The loop of \<^verbatim>\<open>_get_activations\<close> (lines 67-83). The state is \<open>pred_arr\<close> and
  \<open>start_idx\<close>; \<open>written\<close> is a ghost variable listing, in order, the row indices the slice
  assignments have stored to. \<open>model batch\<close> stands for \<^verbatim>\<open>model(batch.float())[0]\<close>.
  \<^verbatim>\<open>
    for batch, labels in tqdm(dataloader, desc="Evaluating InceptionV3"):
        batch = batch.to(device)
        with torch.no_grad():
            batch = batch.float()
            pred = model(batch)[0]
        if pred.size(2) != 1 or pred.size(3) != 1:
            pred = adaptive_avg_pool2d(pred, output_size=(1, 1))
        pred = pred.squeeze(3).squeeze(2).cpu().numpy()
        pred_arr[start_idx:start_idx + pred.shape[0]] = pred
        start_idx = start_idx + pred.shape[0]
  \<close>
\<close>

fun activations_loop ::
  "('img list \<Rightarrow> tensor4) \<Rightarrow> ('img list \<times> 'lab list) list \<Rightarrow> matrix \<Rightarrow> nat \<Rightarrow> nat list
     \<Rightarrow> error + (matrix \<times> nat list)" where
  "activations_loop model [] pred_arr start_idx written = Inr (pred_arr, written)"
| "activations_loop model ((batch, labels) # rest) pred_arr start_idx written =
     (let pred = model batch
      in case (if size2 pred \<noteq> 1 \<or> size3 pred \<noteq> 1
               then (case lookup_global ''adaptive_avg_pool2d'' of
                       Inl e \<Rightarrow> Inl e
                     | Inr _ \<Rightarrow> Inr (adaptive_avg_pool2d pred))
               else Inr pred) of
           Inl e \<Rightarrow> Inl e
         | Inr pred \<Rightarrow>
             let pred = squeeze32 pred
             in (case assign_rows pred_arr start_idx pred of
                   Inl e \<Rightarrow> Inl e
                 | Inr pred_arr' \<Rightarrow>
                     activations_loop model rest pred_arr' (start_idx + nrows pred)
                       (written @ [min start_idx (nrows pred_arr) ..<
                                   min (start_idx + nrows pred) (nrows pred_arr)])))"

text \<open>
  \<^verbatim>\<open>_get_activations(dataloader, length, model, batch_size, dims)\<close>, lines 54-85. The
  dataloader is the sequence of (batch, labels) pairs it yields. The result is
  \<open>pred_arr\<close>, with the ghost list of the rows written.
  \<^verbatim>\<open>
    if batch_size > length:
        print(...)
        batch_size = length
    pred_arr = np.empty((length, dims))
    start_idx = 0
    for ...
    return pred_arr
  \<close>
\<close>

fun get_activations ::
  "(nat \<Rightarrow> nat \<Rightarrow> fl) \<Rightarrow> ('img list \<times> 'lab list) list \<Rightarrow> nat \<Rightarrow> ('img list \<Rightarrow> tensor4)
     \<Rightarrow> nat \<Rightarrow> nat \<Rightarrow> error + (matrix \<times> nat list)" where
  "get_activations junk dataloader len model batch_size dims =
     (let batch_size = (if batch_size > len then len else batch_size);
          pred_arr = np_empty junk len dims;
          start_idx = 0
      in activations_loop model dataloader pred_arr start_idx [])"

text \<open>
  A batch whose feature-network output is a 1 x 1 map per channel with \<open>dims\<close> channels,
  and the embeddings of a dataloader's batches, one row per sample, in iteration order.
\<close>

definition batch_ok :: "('img list \<Rightarrow> tensor4) \<Rightarrow> nat \<Rightarrow> ('img list \<times> 'lab list) \<Rightarrow> bool" where
  "batch_ok model dims b =
     (size2 (model (fst b)) = 1 \<and> size3 (model (fst b)) = 1 \<and> size1 (model (fst b)) = dims)"

definition sample_counts :: "('img list \<Rightarrow> tensor4) \<Rightarrow> ('img list \<times> 'lab list) list \<Rightarrow> nat list" where
  "sample_counts model dataloader = map (\<lambda>b. size0 (model (fst b))) dataloader"

definition embeddings :: "('img list \<Rightarrow> tensor4) \<Rightarrow> ('img list \<times> 'lab list) list \<Rightarrow> fl list list" where
  "embeddings model dataloader = concat (map (\<lambda>b. rows (squeeze32 (model (fst b)))) dataloader)"

text \<open>
  Three batches of 4, 4 and 2 images (an image is a number here) and a feature network
  whose embedding of image \<open>i\<close> is \<open>(i, i + 100)\<close>; a second network whose output is a
  2 x 2 map per channel.
\<close>

definition three_batches :: "(nat list \<times> nat list) list" where
  "three_batches = [([0, 1, 2, 3], [0, 0, 0, 0]), ([4, 5, 6, 7], [0, 0, 0, 0]), ([8, 9], [0, 0])]"

definition flat_net :: "nat list \<Rightarrow> tensor4" where
  "flat_net batch = Tensor4 2 1 1 (map (\<lambda>i. [[[Fin (real i)]], [[Fin (real i + 100)]]]) batch)"

definition spatial_net :: "nat list \<Rightarrow> tensor4" where
  "spatial_net batch =
     Tensor4 1 2 2 (map (\<lambda>i. [[[Fin (real i), Fin 0], [Fin 0, Fin (real i)]]]) batch)"

definition nan_junk :: "nat \<Rightarrow> nat \<Rightarrow> fl" where
  "nan_junk i j = NaN"

section \<open>utils/fid.py: \_calculate\_frechet\_distance\<close>

text \<open>
  A NumPy array of at most two dimensions: a 0-d array (a scalar), a vector or a matrix.
\<close>

datatype ndarray = Arr0 fl | Arr1 "fl list" | Arr2 matrix

fun mshape :: "matrix \<Rightarrow> nat list" where
  "mshape m = [nrows m, ncols m]"

fun shape :: "ndarray \<Rightarrow> nat list" where
  "shape (Arr0 x) = []"
| "shape (Arr1 xs) = [length xs]"
| "shape (Arr2 m) = mshape m"

text \<open>\<^verbatim>\<open>np.atleast_1d\<close> makes a scalar a vector of one entry and leaves the rest.\<close>

fun atleast_1d :: "ndarray \<Rightarrow> ndarray" where
  "atleast_1d (Arr0 x) = Arr1 [x]"
| "atleast_1d a = a"

text \<open>
  \<^verbatim>\<open>np.atleast_2d\<close> makes a scalar a 1 x 1 matrix and a vector of n entries a 1 x n
  matrix; its result is always two-dimensional.
\<close>

fun atleast_2d :: "ndarray \<Rightarrow> matrix" where
  "atleast_2d (Arr0 x) = Matrix 1 [[x]]"
| "atleast_2d (Arr1 xs) = Matrix (length xs) [xs]"
| "atleast_2d (Arr2 m) = m"

text \<open>
  \<^verbatim>\<open>mu1 - mu2\<close>. The function subtracts only after asserting that the two shapes are
  equal, where the difference is entry by entry; operands of different rank never reach
  it (the last equation is not used).
\<close>

fun mat_sub :: "matrix \<Rightarrow> matrix \<Rightarrow> matrix" where
  "mat_sub a b = Matrix (ncols a) (map2 (map2 fl_sub) (rows a) (rows b))"

fun arr_sub :: "ndarray \<Rightarrow> ndarray \<Rightarrow> ndarray" where
  "arr_sub (Arr0 a) (Arr0 b) = Arr0 (fl_sub a b)"
| "arr_sub (Arr1 xs) (Arr1 ys) = Arr1 (map2 fl_sub xs ys)"
| "arr_sub (Arr2 a) (Arr2 b) = Arr2 (mat_sub a b)"
| "arr_sub a b = a"

text \<open>The inner product of two vectors, and column \<open>j\<close> of a matrix.\<close>

definition inner :: "fl list \<Rightarrow> fl list \<Rightarrow> fl" where
  "inner xs ys = fl_sum (map2 fl_mul xs ys)"

definition column :: "matrix \<Rightarrow> nat \<Rightarrow> fl list" where
  "column m j = map (\<lambda>r. r ! j) (rows m)"

text \<open>
  The matrix product \<^verbatim>\<open>a.dot(b)\<close> of two 2-d arrays; NumPy raises \<^verbatim>\<open>ValueError\<close> when the
  width of \<open>a\<close> is not the height of \<open>b\<close>.
\<close>

fun mat_dot :: "matrix \<Rightarrow> matrix \<Rightarrow> error + matrix" where
  "mat_dot a b =
     (if ncols a = nrows b
      then Inr (Matrix (ncols b)
             (map (\<lambda>r. map (\<lambda>j. inner r (column b j)) [0..<ncols b]) (rows a)))
      else Inl (ValueError ''shapes not aligned''))"

text \<open>\<^verbatim>\<open>a.dot(b)\<close> for arrays of at most two dimensions.\<close>

fun dot :: "ndarray \<Rightarrow> ndarray \<Rightarrow> error + ndarray" where
  "dot (Arr0 a) (Arr0 b) = Inr (Arr0 (fl_mul a b))"
| "dot (Arr0 a) (Arr1 ys) = Inr (Arr1 (map (fl_mul a) ys))"
| "dot (Arr0 a) (Arr2 m) = Inr (Arr2 (Matrix (ncols m) (map (map (fl_mul a)) (rows m))))"
| "dot (Arr1 xs) (Arr0 b) = Inr (Arr1 (map (\<lambda>x. fl_mul x b) xs))"
| "dot (Arr2 m) (Arr0 b) = Inr (Arr2 (Matrix (ncols m) (map (map (\<lambda>x. fl_mul x b)) (rows m))))"
| "dot (Arr1 xs) (Arr1 ys) =
     (if length xs = length ys then Inr (Arr0 (inner xs ys))
      else Inl (ValueError ''shapes not aligned''))"
| "dot (Arr1 xs) (Arr2 m) =
     (if length xs = nrows m then Inr (Arr1 (map (\<lambda>j. inner xs (column m j)) [0..<ncols m]))
      else Inl (ValueError ''shapes not aligned''))"
| "dot (Arr2 m) (Arr1 ys) =
     (if ncols m = length ys then Inr (Arr1 (map (\<lambda>r. inner r ys) (rows m)))
      else Inl (ValueError ''shapes not aligned''))"
| "dot (Arr2 a) (Arr2 b) = (case mat_dot a b of Inl e \<Rightarrow> Inl e | Inr m \<Rightarrow> Inr (Arr2 m))"

text \<open>\<^verbatim>\<open>np.trace\<close> of a 2-d array: the sum of the entries \<open>(i, i)\<close>.\<close>

definition diagonal :: "matrix \<Rightarrow> fl list" where
  "diagonal m = map (\<lambda>i. rows m ! i ! i) [0..<min (nrows m) (ncols m)]"

definition trace :: "matrix \<Rightarrow> fl" where
  "trace m = fl_sum (diagonal m)"

text \<open>\<^verbatim>\<open>np.eye(n) * eps\<close>, and the sum of two matrices of one shape.\<close>

definition eye_times :: "nat \<Rightarrow> fl \<Rightarrow> matrix" where
  "eye_times n eps =
     Matrix n (map (\<lambda>i. map (\<lambda>j. fl_mul (Fin (if i = j then 1 else 0)) eps) [0..<n]) [0..<n])"

fun mat_add :: "matrix \<Rightarrow> matrix \<Rightarrow> matrix" where
  "mat_add a b = Matrix (ncols a) (map2 (map2 fl_add) (rows a) (rows b))"

text \<open>
  What \<^verbatim>\<open>scipy.linalg.sqrtm\<close> returns: a real array, or a complex one whose entries are
  pairs (real part, imaginary part). The function itself is SciPy's and is a parameter
  \<open>sqrtm\<close> of the model; it may raise.
\<close>

datatype cmatrix = CMatrix (cncols: nat) (crows: "(fl \<times> fl) list list")

datatype sqrtm_result = RealResult matrix | ComplexResult cmatrix

text \<open>\<^verbatim>\<open>np.isfinite(covmean).all()\<close>.\<close>

fun isfinite_all :: "sqrtm_result \<Rightarrow> bool" where
  "isfinite_all (RealResult m) = list_all (list_all isfinite) (rows m)"
| "isfinite_all (ComplexResult c) =
     list_all (list_all (\<lambda>(re, im). isfinite re \<and> isfinite im)) (crows c)"

text \<open>\<^verbatim>\<open>covmean.imag\<close>, \<^verbatim>\<open>covmean.real\<close> and \<^verbatim>\<open>np.diagonal(covmean).imag\<close> of a complex array.\<close>

definition imag :: "cmatrix \<Rightarrow> matrix" where
  "imag c = Matrix (cncols c) (map (map snd) (crows c))"

definition real_part :: "cmatrix \<Rightarrow> matrix" where
  "real_part c = Matrix (cncols c) (map (map fst) (crows c))"

definition diagonal_imag :: "cmatrix \<Rightarrow> fl list" where
  "diagonal_imag c = diagonal (imag c)"

text \<open>
  \<^verbatim>\<open>np.allclose(xs, 0, atol=1e-3)\<close>: every entry \<open>x\<close> is finite with
  \<open>|x - 0| \<le> atol + rtol * |0|\<close>; a NaN or an infinity is not close to 0. The
  left side is \<open>|x|\<close> and the right side is \<open>atol\<close>, both without rounding. \<open>atol\<close> is
  the float64 that the literal \<^verbatim>\<open>1e-3\<close> denotes, \<open>1152921504606847 / 2^60\<close>, a little above
  1/1000.
\<close>

definition atol :: real where
  "atol = 1152921504606847 / 2 ^ 60"

fun close_to_zero :: "fl \<Rightarrow> bool" where
  "close_to_zero (Fin x) = (\<bar>x\<bar> \<le> atol)"
| "close_to_zero _ = False"

definition allclose_zero :: "fl list \<Rightarrow> bool" where
  "allclose_zero xs = list_all close_to_zero xs"

text \<open>\<^verbatim>\<open>np.max\<close> of a flattened array: NaN propagates, and an empty array raises.\<close>

fun fl_max :: "fl \<Rightarrow> fl \<Rightarrow> fl" where
  "fl_max (Fin a) (Fin b) = Fin (max a b)"
| "fl_max NaN _ = NaN"
| "fl_max _ NaN = NaN"
| "fl_max PInf _ = PInf"
| "fl_max _ PInf = PInf"
| "fl_max NInf b = b"
| "fl_max a NInf = a"

fun np_max :: "fl list \<Rightarrow> error + fl" where
  "np_max [] = Inl (ValueError ''zero-size array to reduction operation maximum'')"
| "np_max (x # xs) = Inr (foldl fl_max x xs)"

definition max_abs_imag :: "cmatrix \<Rightarrow> error + fl" where
  "max_abs_imag c = np_max (map fl_abs (concat (rows (imag c))))"

text \<open>
  Lines 111-118: the square root of the product, recomputed on the perturbed covariances
  when it is not finite. The first component of the result is a ghost value: the
  arguments \<open>sqrtm\<close> was called with, in order.
  \<^verbatim>\<open>
    covmean, _ = linalg.sqrtm(sigma1.dot(sigma2), disp=False)
    if not np.isfinite(covmean).all():
        msg = (...) % eps
        print(msg)
        offset = np.eye(sigma1.shape[0]) * eps
        covmean = linalg.sqrtm((sigma1 + offset).dot(sigma2 + offset))
  \<close>
\<close>

fun covmean_of ::
  "(matrix \<Rightarrow> error + sqrtm_result) \<Rightarrow> matrix \<Rightarrow> matrix \<Rightarrow> fl
     \<Rightarrow> matrix list \<times> (error + sqrtm_result)" where
  "covmean_of sqrtm sigma1 sigma2 eps =
     (case mat_dot sigma1 sigma2 of
        Inl e \<Rightarrow> ([], Inl e)
      | Inr product \<Rightarrow>
          (case sqrtm product of
             Inl e \<Rightarrow> ([product], Inl e)
           | Inr covmean \<Rightarrow>
               if \<not> isfinite_all covmean
               then let offset = eye_times (nrows sigma1) eps
                    in (case mat_dot (mat_add sigma1 offset) (mat_add sigma2 offset) of
                          Inl e \<Rightarrow> ([product], Inl e)
                        | Inr product' \<Rightarrow> ([product, product'], sqrtm product'))
               else ([product], Inr covmean)))"

text \<open>
  Lines 120-125: a complex square root loses its imaginary part, unless the imaginary
  parts of its diagonal are not all close to 0.
  \<^verbatim>\<open>
    if np.iscomplexobj(covmean):
        if not np.allclose(np.diagonal(covmean).imag, 0, atol=1e-3):
            m = np.max(np.abs(covmean.imag))
            raise ValueError('Imaginary component {}'.format(m))
        covmean = covmean.real
  \<close>
\<close>

fun discard_imaginary :: "sqrtm_result \<Rightarrow> error + matrix" where
  "discard_imaginary (RealResult m) = Inr m"
| "discard_imaginary (ComplexResult c) =
     (if \<not> allclose_zero (diagonal_imag c)
      then (case max_abs_imag c of
              Inl e \<Rightarrow> Inl e
            | Inr m \<Rightarrow> Inl (ValueError_Imaginary_component m))
      else Inr (real_part c))"

text \<open>
  Lines 127-130: \<^verbatim>\<open>diff.dot(diff) + np.trace(sigma1) + np.trace(sigma2) - 2 * tr_covmean\<close>.
  The three traces are scalars; they are added to every entry of \<^verbatim>\<open>diff.dot(diff)\<close>, which
  is a scalar when \<open>diff\<close> is a vector.
\<close>

fun arr_map :: "(fl \<Rightarrow> fl) \<Rightarrow> ndarray \<Rightarrow> ndarray" where
  "arr_map f (Arr0 x) = Arr0 (f x)"
| "arr_map f (Arr1 xs) = Arr1 (map f xs)"
| "arr_map f (Arr2 m) = Arr2 (Matrix (ncols m) (map (map f) (rows m)))"

fun distance_of :: "ndarray \<Rightarrow> matrix \<Rightarrow> matrix \<Rightarrow> matrix \<Rightarrow> error + ndarray" where
  "distance_of diff sigma1 sigma2 covmean =
     (let tr_covmean = trace covmean
      in case dot diff diff of
           Inl e \<Rightarrow> Inl e
         | Inr dd \<Rightarrow>
             Inr (arr_map (\<lambda>x. fl_sub (fl_add (fl_add x (trace sigma1)) (trace sigma2))
                                  (fl_mul (Fin 2) tr_covmean)) dd))"

text \<open>
  \<^verbatim>\<open>_calculate_frechet_distance(mu1, sigma1, mu2, sigma2, eps=1e-6)\<close>, lines 87-130. The
  result is the ghost list of the calls of \<open>sqrtm\<close> and the outcome.
  \<^verbatim>\<open>
    mu1 = np.atleast_1d(mu1)
    mu2 = np.atleast_1d(mu2)
    sigma1 = np.atleast_2d(sigma1)
    sigma2 = np.atleast_2d(sigma2)
    assert mu1.shape == mu2.shape, 'Training and test mean vectors have different lengths'
    assert sigma1.shape == sigma2.shape, 'Training and test covariances have different dimensions'
    diff = mu1 - mu2
    ...
  \<close>
\<close>

text \<open>The default \<^verbatim>\<open>eps=1e-6\<close>: the float64 that the literal denotes.\<close>

definition eps_default :: fl where
  "eps_default = Fin (4722366482869645 / 2 ^ 72)"

fun calculate_frechet_distance ::
  "(matrix \<Rightarrow> error + sqrtm_result) \<Rightarrow> ndarray \<Rightarrow> ndarray \<Rightarrow> ndarray \<Rightarrow> ndarray \<Rightarrow> fl
     \<Rightarrow> matrix list \<times> (error + ndarray)" where
  "calculate_frechet_distance sqrtm mu1 sigma1 mu2 sigma2 eps =
     (let mu1 = atleast_1d mu1;
          mu2 = atleast_1d mu2;
          sigma1 = atleast_2d sigma1;
          sigma2 = atleast_2d sigma2
      in if shape mu1 \<noteq> shape mu2
         then ([], Inl (AssertionError ''Training and test mean vectors have different lengths''))
         else if mshape sigma1 \<noteq> mshape sigma2
         then ([], Inl (AssertionError ''Training and test covariances have different dimensions''))
         else
           let diff = arr_sub mu1 mu2
           in (case covmean_of sqrtm sigma1 sigma2 eps of
                 (calls, Inl e) \<Rightarrow> (calls, Inl e)
               | (calls, Inr covmean) \<Rightarrow>
                   (case discard_imaginary covmean of
                      Inl e \<Rightarrow> (calls, Inl e)
                    | Inr covmean \<Rightarrow> (calls, distance_of diff sigma1 sigma2 covmean))))"

section \<open>Notions used to state the properties of \_calculate\_frechet\_distance\<close>

text \<open>
  A stand-in for SciPy's \<^verbatim>\<open>sqrtm\<close> given by a table of (argument, result) pairs; it raises
  on an argument outside the table. It serves to run the model on concrete inputs.
\<close>

definition sqrtm_of_table :: "(matrix \<times> sqrtm_result) list \<Rightarrow> matrix \<Rightarrow> error + sqrtm_result" where
  "sqrtm_of_table tbl m = (case map_of tbl m of Some r \<Rightarrow> Inr r | None \<Rightarrow> Inl (ValueError ''sqrtm''))"

text \<open>
  Adding \<open>eps\<close> to the diagonal of a matrix, entry by entry: every entry \<open>(i, i)\<close> grows by
  \<open>eps\<close> and no other entry changes.
\<close>

definition add_to_diagonal :: "fl \<Rightarrow> matrix \<Rightarrow> matrix" where
  "add_to_diagonal eps m =
     Matrix (ncols m)
       (map (\<lambda>i. (rows m ! i)[i := fl_add (rows m ! i ! i) eps]) [0..<nrows m])"

text \<open>A complex array is well formed when every row has as many entries as it has columns.\<close>

definition wf_cmatrix :: "cmatrix \<Rightarrow> bool" where
  "wf_cmatrix c = list_all (\<lambda>r. length r = cncols c) (crows c)"

text \<open>The square root of the 1 x 1 matrix (4).\<close>

definition sqrtm_4 :: "matrix \<Rightarrow> error + sqrtm_result" where
  "sqrtm_4 = sqrtm_of_table [(Matrix 1 [[Fin 4]], RealResult (Matrix 1 [[Fin 2]]))]"

text \<open>
  An imaginary part exceeds the tolerance when its absolute value is above the float64
  \<open>1e-3\<close>, which is \<open>1152921504606847 / 2^60\<close>; a non-finite one is never within it.
\<close>

fun exceeds_tolerance :: "fl \<Rightarrow> bool" where
  "exceeds_tolerance (Fin x) = (\<bar>x\<bar> > 1152921504606847 / 2 ^ 60)"
| "exceeds_tolerance _ = True"

text \<open>
  The largest absolute value among the entries of a non-empty array, as NumPy reports it:
  NaN when some entry is NaN, otherwise infinity when some entry is infinite, otherwise
  the greatest of the absolute values.
\<close>

fun magnitude :: "fl \<Rightarrow> real" where
  "magnitude (Fin a) = \<bar>a\<bar>"
| "magnitude _ = 0"

definition largest_magnitude :: "fl list \<Rightarrow> fl" where
  "largest_magnitude xs =
     (if NaN \<in> set xs then NaN
      else if PInf \<in> set xs \<or> NInf \<in> set xs then PInf
      else Fin (Max (magnitude ` set xs)))"

text \<open>All the imaginary parts of a complex array, row after row.\<close>

definition imaginary_parts :: "cmatrix \<Rightarrow> fl list" where
  "imaginary_parts c = concat (map (map snd) (crows c))"

text \<open>A vector of finite entries, given by their real numbers.\<close>

definition fvec :: "real list \<Rightarrow> ndarray" where
  "fvec xs = Arr1 (map Fin xs)"










text \<open>
  A singular case: both covariances are the 2 x 2 zero matrix, the square root of their
  product comes back as NaN, and the square root of the perturbed product, the identity
  when \<open>eps\<close> is 1, is the identity.
\<close>

definition zero2 :: matrix where
  "zero2 = Matrix 2 [[Fin 0, Fin 0], [Fin 0, Fin 0]]"

definition nan2 :: matrix where
  "nan2 = Matrix 2 [[NaN, NaN], [NaN, NaN]]"

definition eye2 :: matrix where
  "eye2 = Matrix 2 [[Fin 1, Fin 0], [Fin 0, Fin 1]]"

definition sqrtm_singular :: "matrix \<Rightarrow> error + sqrtm_result" where
  "sqrtm_singular = sqrtm_of_table [(zero2, RealResult nan2), (eye2, RealResult eye2)]"

text \<open>
  A complex case: the covariances \<open>diag(4, 1)\<close> and \<open>diag(1, 4)\<close>, whose product is
  \<open>4 I\<close>; its square root \<open>2 I\<close> comes back complex, with the imaginary part \<open>im\<close> in
  the entry (0, 0), -8 in the entry (0, 1) and 5 in the entry (1, 0).
\<close>

definition sigma_a :: matrix where
  "sigma_a = Matrix 2 [[Fin 4, Fin 0], [Fin 0, Fin 1]]"

definition sigma_b :: matrix where
  "sigma_b = Matrix 2 [[Fin 1, Fin 0], [Fin 0, Fin 4]]"

definition root_ab :: "fl \<Rightarrow> cmatrix" where
  "root_ab im = CMatrix 2 [[(Fin 2, im), (Fin 0, Fin (- 8))], [(Fin 0, Fin 5), (Fin 2, Fin 0)]]"

definition sqrtm_complex :: "fl \<Rightarrow> matrix \<Rightarrow> error + sqrtm_result" where
  "sqrtm_complex im = sqrtm_of_table
     [(Matrix 2 [[Fin 4, Fin 0], [Fin 0, Fin 4]], ComplexResult (root_ab im))]"


section \<open>utils/fid.py: \_calculate\_activation\_statistics\<close>

text \<open>\<^verbatim>\<open>X.T\<close>: the rows of the transpose are the columns of \<open>m\<close>.\<close>

definition transpose_matrix :: "matrix \<Rightarrow> matrix" where
  "transpose_matrix m = Matrix (nrows m) (map (column m) [0..<ncols m])"

text \<open>
  \<^verbatim>\<open>np.mean(act, axis=0)\<close>: for each column its sum divided by the number of rows (NaN
  when there is no row).
\<close>

definition np_mean_axis0 :: "matrix \<Rightarrow> ndarray" where
  "np_mean_axis0 act =
     Arr1 (map (\<lambda>j. fl_div (fl_sum (column act j)) (Fin (real (nrows act)))) [0..<ncols act])"

text \<open>\<^verbatim>\<open>c.squeeze()\<close> of a 2-d array: the axes of length 1 are removed.\<close>

fun squeeze :: "matrix \<Rightarrow> ndarray" where
  "squeeze m =
     (if nrows m = 1 \<and> ncols m = 1 then Arr0 (hd (hd (rows m)))
      else if nrows m = 1 then Arr1 (hd (rows m))
      else if ncols m = 1 then Arr1 (map hd (rows m))
      else Arr2 m)"

text \<open>
  \<^verbatim>\<open>np.cov(act, rowvar=False)\<close> for a 2-d \<open>act\<close>, following NumPy's implementation (no
  weights, \<open>ddof = 1\<close>):
  \<^verbatim>\<open>
    X = array(m, ndmin=2, dtype=dtype)
    if not rowvar and X.shape[0] != 1:
        X = X.T
    if X.shape[0] == 0:
        return np.array([]).reshape(0, 0)
    avg, w_sum = average(X, axis=1, weights=w, returned=True)
    fact = X.shape[1] - ddof
    if fact <= 0:
        warnings.warn("Degrees of freedom <= 0 for slice", RuntimeWarning)
        fact = 0.0
    X -= avg[:, None]
    c = dot(X, X.T.conj())
    c *= np.true_divide(1, fact)
    return c.squeeze()
  \<close>
  The test \<^verbatim>\<open>X.shape[0] != 1\<close> is that of NumPy before 2.2, where an array of one row is
  not transposed; from 2.2 on every 2-d array is. The flag \<open>keeps_single_row\<close> says which
  NumPy runs; with two rows or more it makes no difference. \<open>row_means\<close> is \<open>avg\<close>,
  \<open>normalization\<close> is \<open>fact\<close>, \<open>subtract_from_rows\<close> is \<^verbatim>\<open>X -= avg[:, None]\<close> and
  \<open>scale_matrix\<close> is \<^verbatim>\<open>c *= ...\<close>.
\<close>

definition row_means :: "matrix \<Rightarrow> fl list" where
  "row_means X = map (\<lambda>r. fl_div (fl_sum r) (Fin (real (ncols X)))) (rows X)"

definition normalization :: "matrix \<Rightarrow> fl" where
  "normalization X = (if ncols X \<le> 1 then Fin 0 else Fin (real (ncols X - 1)))"

definition subtract_from_rows :: "matrix \<Rightarrow> fl list \<Rightarrow> matrix" where
  "subtract_from_rows X avg =
     Matrix (ncols X) (map2 (\<lambda>r a. map (\<lambda>x. fl_sub x a) r) (rows X) avg)"

definition scale_matrix :: "matrix \<Rightarrow> fl \<Rightarrow> matrix" where
  "scale_matrix c f = Matrix (ncols c) (map (map (\<lambda>x. fl_mul x f)) (rows c))"

fun np_cov :: "bool \<Rightarrow> matrix \<Rightarrow> error + ndarray" where
  "np_cov keeps_single_row m =
     (let X = (if nrows m = 1 \<and> keeps_single_row then m else transpose_matrix m)
      in if nrows X = 0 then Inr (Arr2 (Matrix 0 []))
         else
           let avg = row_means X;
               fact = normalization X;
               X = subtract_from_rows X avg
           in (case mat_dot X (transpose_matrix X) of
                 Inl e \<Rightarrow> Inl e
               | Inr c \<Rightarrow> Inr (squeeze (scale_matrix c (fl_div (Fin 1) fact)))))"

text \<open>
  \<^verbatim>\<open>_calculate_activation_statistics(dataloader, length, model, batch_size, dims)\<close>, lines
  132-152.
  \<^verbatim>\<open>
    act = _get_activations(dataloader, length, model, batch_size, dims)
    mu = np.mean(act, axis=0)
    sigma = np.cov(act, rowvar=False)
    return mu, sigma
  \<close>
\<close>

fun calculate_activation_statistics ::
  "(nat \<Rightarrow> nat \<Rightarrow> fl) \<Rightarrow> bool \<Rightarrow> ('img list \<times> 'lab list) list \<Rightarrow> nat
     \<Rightarrow> ('img list \<Rightarrow> tensor4) \<Rightarrow> nat \<Rightarrow> nat \<Rightarrow> error + (ndarray \<times> ndarray)" where
  "calculate_activation_statistics junk keeps_single_row dataloader len model batch_size dims =
     (case get_activations junk dataloader len model batch_size dims of
        Inl e \<Rightarrow> Inl e
      | Inr (act, written) \<Rightarrow>
          let mu = np_mean_axis0 act
          in (case np_cov keeps_single_row act of
                Inl e \<Rightarrow> Inl e
              | Inr sigma \<Rightarrow> Inr (mu, sigma)))"






text \<open>
  Small dataloaders for the statistics: three images in two batches with the feature
  network \<open>flat_net\<close> (two features), and two images with one feature each.
\<close>

definition two_batches :: "(nat list \<times> nat list) list" where
  "two_batches = [([1, 3], [0, 0]), ([5], [0])]"

definition one_feature_net :: "nat list \<Rightarrow> tensor4" where
  "one_feature_net batch = Tensor4 1 1 1 (map (\<lambda>i. [[[Fin (real i)]]]) batch)"

section \<open>utils/fid.py: get\_fid\_value\<close>

definition FID_EVAL_SIZE :: nat where
  "FID_EVAL_SIZE = 100000"

text \<open>
  What \<^verbatim>\<open>get_fid_value\<close> takes from its surroundings. Images and labels are opaque values
  of the types \<open>'img\<close> and \<open>'lab\<close>.
  \<^item> \<open>INCEPTION_V3\<close>: the module-level feature network, as \<^verbatim>\<open>model(batch.float())[0]\<close>;
  \<^item> \<open>linalg_sqrtm\<close>: SciPy's \<^verbatim>\<open>linalg.sqrtm\<close>;
  \<^item> \<open>Resize\<close>: \<^verbatim>\<open>transforms.Resize((299, 299))\<close>; \<open>repeat3\<close>: \<^verbatim>\<open>x.repeat(3, 1, 1)\<close>;
  \<^item> \<open>img_shape\<close>: the shape of one image (\<^verbatim>\<open>inputs[0].shape\<close>);
  \<^item> \<open>empty_img\<close>, \<open>empty_lab\<close>, \<open>empty_act\<close>: the contents \<^verbatim>\<open>np.empty\<close> finds in memory;
  \<^item> \<open>cov_keeps_single_row\<close>: which NumPy runs (see \<open>np_cov\<close>).
\<close>

record ('img, 'lab) fid_env =
  INCEPTION_V3 :: "'img list \<Rightarrow> tensor4"
  linalg_sqrtm :: "matrix \<Rightarrow> error + sqrtm_result"
  Resize :: "'img \<Rightarrow> 'img"
  repeat3 :: "'img \<Rightarrow> 'img"
  img_shape :: "'img \<Rightarrow> nat list"
  empty_img :: "nat \<Rightarrow> 'img"
  empty_lab :: "nat \<Rightarrow> 'lab"
  empty_act :: "nat \<Rightarrow> nat \<Rightarrow> fl"
  cov_keeps_single_row :: bool

text \<open>
  The dataloader passed in: \<^verbatim>\<open>len(dataloader.dataset)\<close> and the (inputs, labels) batches
  one iteration yields. The function iterates it three times; the first and the third
  iteration read only the shape of the first batch's first sample, which is the same in
  every iteration, so one sequence of batches stands for all three. All samples of the
  dataset have one shape, and the generative model returns reconstructions of that shape.
\<close>

record ('img, 'lab) data_loader =
  dataset_len :: nat
  batches :: "('img list \<times> 'lab list) list"

text \<open>
  The assignment \<^verbatim>\<open>arr[:arr.shape[0]] = v\<close> along the first axis: \<open>v\<close> must have as many
  rows as \<open>arr\<close>, or one row, which NumPy broadcasts to every row of \<open>arr\<close>.
\<close>

fun assign_all :: "'a list \<Rightarrow> 'a list \<Rightarrow> error + 'a list" where
  "assign_all arr v =
     (if length v = length arr then Inr v
      else if length v = 1 then Inr (replicate (length arr) (hd v))
      else Inl (ValueError ''could not broadcast input array''))"

text \<open>
  The loop of lines 204-221. \<open>vae_model inputs\<close> stands for \<^verbatim>\<open>vae_model(inputs)[0]\<close>.
  \<^verbatim>\<open>
    count = 0
    for inputs, labels in tqdm(dataloader, desc="Evaluating VAE"):
        inputs = inputs.to(device)
        with torch.no_grad():
            outputs = vae_model(inputs)[0]
        if count != 0:
            original_input = np.concatenate((original_input, inputs...), axis=0)
            original_label = np.concatenate((original_label, labels...), axis=0)
            vae_output = np.concatenate((vae_output, outputs...), axis=0)
        else:
            original_input[:original_input.shape[0]] = inputs...
            original_label[:original_input.shape[0]] = labels...
            vae_output[:original_input.shape[0]] = outputs...
        count = count + 1
  \<close>
\<close>

fun vae_loop ::
  "('img list \<Rightarrow> 'img list) \<Rightarrow> ('img list \<times> 'lab list) list
     \<Rightarrow> 'img list \<times> 'lab list \<times> 'img list \<Rightarrow> nat
     \<Rightarrow> error + ('img list \<times> 'lab list \<times> 'img list)" where
  "vae_loop vae_model [] (original_input, original_label, vae_output) count =
     Inr (original_input, original_label, vae_output)"
| "vae_loop vae_model ((inputs, labels) # rest) (original_input, original_label, vae_output) count =
     (let outputs = vae_model inputs
      in if count \<noteq> 0
         then vae_loop vae_model rest
                (original_input @ inputs, original_label @ labels, vae_output @ outputs)
                (count + 1)
         else (case assign_all original_input inputs of
                 Inl e \<Rightarrow> Inl e
               | Inr original_input' \<Rightarrow>
                   (case assign_all original_label labels of
                      Inl e \<Rightarrow> Inl e
                    | Inr original_label' \<Rightarrow>
                        (case assign_all vae_output outputs of
                           Inl e \<Rightarrow> Inl e
                         | Inr vae_output' \<Rightarrow>
                             vae_loop vae_model rest
                               (original_input', original_label', vae_output') (count + 1)))))"

text \<open>
  Lines 191-221: the shapes of the first sample, the three arrays allocated with
  \<open>batch_size\<close> rows, and the loop. The result is \<open>shapeI\<close> (without the leading
  \<open>batch_size\<close>) and the three arrays.
  \<^verbatim>\<open>
    for inputs, labels in dataloader:
        shapeI = list(inputs[0].shape)
        shapeL = list(labels[0].shape)
        break
    shapeI.insert(0, batch_size)
    shapeL.insert(0, batch_size)
    original_input = np.empty(shapeI)
    original_label = np.empty(shapeL)
    vae_output = np.empty(shapeI)
  \<close>
  With no batch the loop body never runs and \<^verbatim>\<open>shapeI.insert\<close> reads an unbound local.
\<close>

fun materialize ::
  "('img, 'lab) fid_env \<Rightarrow> ('img list \<Rightarrow> 'img list) \<Rightarrow> ('img, 'lab) data_loader \<Rightarrow> nat
     \<Rightarrow> error + (nat list \<times> 'img list \<times> 'lab list \<times> 'img list)" where
  "materialize env vae_model dataloader batch_size =
     (case batches dataloader of
        [] \<Rightarrow> Inl (UnboundLocalError ''shapeI'')
      | (inputs, labels) # _ \<Rightarrow>
          if inputs = [] then Inl IndexError
          else if labels = [] then Inl IndexError
          else
            let shapeI = img_shape env (hd inputs);
                original_input = map (empty_img env) [0..<batch_size];
                original_label = map (empty_lab env) [0..<batch_size];
                vae_output = map (empty_img env) [0..<batch_size]
            in (case vae_loop vae_model (batches dataloader)
                       (original_input, original_label, vae_output) 0 of
                  Inl e \<Rightarrow> Inl e
                | Inr (original_input, original_label, vae_output) \<Rightarrow>
                    Inr (shapeI, original_input, original_label, vae_output)))"

text \<open>
  \<^verbatim>\<open>CustomTensorDataset\<close> (lines 29-47): two tensors of one length and an optional
  transform; \<^verbatim>\<open>__getitem__\<close> applies the transform to the image.
\<close>

datatype ('img, 'lab) tensor_dataset =
  TensorDataset (tensor0: "'img list") (tensor1: "'lab list") (transform: "('img \<Rightarrow> 'img) option")

fun CustomTensorDataset ::
  "'img list \<Rightarrow> 'lab list \<Rightarrow> ('img \<Rightarrow> 'img) option \<Rightarrow> error + ('img, 'lab) tensor_dataset" where
  "CustomTensorDataset x y t =
     (if length x = length y then Inr (TensorDataset x y t) else Inl (AssertionError ''''))"

fun getitem :: "('img, 'lab) tensor_dataset \<Rightarrow> nat \<Rightarrow> error + ('img \<times> 'lab)" where
  "getitem ds index =
     (if index < length (tensor0 ds)
      then let x = tensor0 ds ! index;
               x = (case transform ds of Some t \<Rightarrow> t x | None \<Rightarrow> x)
           in if index < length (tensor1 ds) then Inr (x, tensor1 ds ! index)
              else Inl IndexError
      else Inl IndexError)"

text \<open>
  \<^verbatim>\<open>torch.utils.data.SequentialSampler(data_source)\<close>: its iterator is
  \<^verbatim>\<open>iter(range(len(self.data_source)))\<close>; it yields positions, not the elements of
  \<open>data_source\<close>.
\<close>

definition SequentialSampler :: "'a list \<Rightarrow> nat list" where
  "SequentialSampler data_source = [0..<length data_source]"

text \<open>
  The batches of indices a \<^verbatim>\<open>DataLoader\<close> draws from its sampler (\<^verbatim>\<open>BatchSampler\<close> with
  \<^verbatim>\<open>drop_last=False\<close>):
  \<^verbatim>\<open>
    batch = []
    for idx in self.sampler:
        batch.append(idx)
        if len(batch) == self.batch_size:
            yield batch
            batch = []
    if len(batch) > 0 and not self.drop_last:
        yield batch
  \<close>
\<close>

fun batch_sampler :: "nat \<Rightarrow> nat list \<Rightarrow> nat list \<Rightarrow> nat list list" where
  "batch_sampler batch_size batch [] = (if length batch > 0 then [batch] else [])"
| "batch_sampler batch_size batch (idx # sampler) =
     (let batch = batch @ [idx]
      in if length batch = batch_size then batch # batch_sampler batch_size [] sampler
         else batch_sampler batch_size batch sampler)"

text \<open>
  One batch of a \<^verbatim>\<open>DataLoader\<close>: the items \<^verbatim>\<open>dataset[i]\<close> for the indices of the batch,
  collated into the list of images and the list of labels.
\<close>

fun fetch_batch ::
  "('img, 'lab) tensor_dataset \<Rightarrow> nat list \<Rightarrow> error + ('img list \<times> 'lab list)" where
  "fetch_batch ds [] = Inr ([], [])"
| "fetch_batch ds (i # indices) =
     (case getitem ds i of
        Inl e \<Rightarrow> Inl e
      | Inr (x, y) \<Rightarrow>
          (case fetch_batch ds indices of
             Inl e \<Rightarrow> Inl e
           | Inr (xs, ys) \<Rightarrow> Inr (x # xs, y # ys)))"

text \<open>
  What iterating the \<^verbatim>\<open>DataLoader\<close> yields: the batches fetched before the first exception,
  and that exception if there is one.
\<close>

fun fetch_batches ::
  "('img, 'lab) tensor_dataset \<Rightarrow> nat list list
     \<Rightarrow> ('img list \<times> 'lab list) list \<times> error option" where
  "fetch_batches ds [] = ([], None)"
| "fetch_batches ds (indices # rest) =
     (case fetch_batch ds indices of
        Inl e \<Rightarrow> ([], Some e)
      | Inr b \<Rightarrow> (case fetch_batches ds rest of (bs, pending) \<Rightarrow> (b # bs, pending)))"

text \<open>
  \<^verbatim>\<open>DataLoader(dataset, batch_size=batch_size, sampler=sampler)\<close>; PyTorch refuses a batch
  size that is not positive.
\<close>

fun DataLoader ::
  "('img, 'lab) tensor_dataset \<Rightarrow> nat \<Rightarrow> nat list
     \<Rightarrow> error + (('img list \<times> 'lab list) list \<times> error option)" where
  "DataLoader ds batch_size sampler =
     (if batch_size = 0 then Inl (ValueError ''batch_size should be a positive integer value'')
      else Inr (fetch_batches ds (batch_sampler batch_size [] sampler)))"

text \<open>
  Line 236. \<^verbatim>\<open>vae_output.shape[1]\<close> is the first entry of \<open>shapeI\<close>.
  \<^verbatim>\<open>
    Transform = transforms.Compose([transforms.Resize((299, 299)),
        transforms.Lambda(lambda x: x.repeat(3, 1, 1)) if vae_output.shape[1]==1
        else NoneTransform()])
  \<close>
\<close>

fun make_transform :: "('img, 'lab) fid_env \<Rightarrow> nat list \<Rightarrow> error + ('img \<Rightarrow> 'img)" where
  "make_transform env [] = Inl IndexError"
| "make_transform env (channels # _) =
     Inr (if channels = 1 then (\<lambda>x. repeat3 env (Resize env x)) else (\<lambda>x. Resize env x))"

text \<open>
  Lines 232-255: the sampler and the two dataloaders. \<open>subset_indices\<close> is the outcome of
  \<^verbatim>\<open>np.random.choice(len(dataloader.dataset), num_samples, replace=False)\<close>, an argument of
  the model. The two \<^verbatim>\<open>print\<close> calls evaluate \<^verbatim>\<open>dataset[1]\<close>.
  \<^verbatim>\<open>
    num_samples = min(FID_EVAL_SIZE, len(dataloader.dataset))
    subset_indices = list(np.random.choice(len(dataloader.dataset), num_samples, replace=False))
    sampler=SequentialSampler(subset_indices)
    Transform = ...
    dataset_reconstructed = CustomTensorDataset(tensors=(vae_output, vae_label), transform = Transform)
    dataloader_reconstructed = DataLoader(dataset_reconstructed, batch_size=batch_size, sampler=sampler)
    print("dataloader_reconstructed built. Shape is ", dataset_reconstructed[1][0].shape)
    ...
    dataset_original = CustomTensorDataset(tensors=(original_input, original_label), transform = Transform)
    dataloader_original = DataLoader(dataset_original, batch_size=batch_size, sampler=sampler)
    print("dataloader_original built. Shape is ", dataset_original[1][0].shape)
  \<close>
\<close>

definition is_draw :: "nat \<Rightarrow> nat \<Rightarrow> nat list \<Rightarrow> bool" where
  "is_draw n k subset_indices =
     (length subset_indices = k \<and> distinct subset_indices \<and> list_all (\<lambda>i. i < n) subset_indices)"

fun build_dataloaders ::
  "('img, 'lab) fid_env \<Rightarrow> nat list \<Rightarrow> 'img list \<Rightarrow> 'lab list \<Rightarrow> 'img list \<Rightarrow> nat \<Rightarrow> nat list
     \<Rightarrow> error + ((('img list \<times> 'lab list) list \<times> error option)
                 \<times> (('img list \<times> 'lab list) list \<times> error option))" where
  "build_dataloaders env shapeI original_input original_label vae_output batch_size subset_indices =
     (let vae_label = original_label;
          sampler = SequentialSampler subset_indices
      in case make_transform env shapeI of
           Inl e \<Rightarrow> Inl e
         | Inr Transform \<Rightarrow>
        (case CustomTensorDataset vae_output vae_label (Some Transform) of
           Inl e \<Rightarrow> Inl e
         | Inr dataset_reconstructed \<Rightarrow>
        (case DataLoader dataset_reconstructed batch_size sampler of
           Inl e \<Rightarrow> Inl e
         | Inr dataloader_reconstructed \<Rightarrow>
        (case getitem dataset_reconstructed 1 of
           Inl e \<Rightarrow> Inl e
         | Inr _ \<Rightarrow>
        (case CustomTensorDataset original_input original_label (Some Transform) of
           Inl e \<Rightarrow> Inl e
         | Inr dataset_original \<Rightarrow>
        (case DataLoader dataset_original batch_size sampler of
           Inl e \<Rightarrow> Inl e
         | Inr dataloader_original \<Rightarrow>
        (case getitem dataset_original 1 of
           Inl e \<Rightarrow> Inl e
         | Inr _ \<Rightarrow> Inr (dataloader_original, dataloader_reconstructed))))))))"

text \<open>
  \<^verbatim>\<open>_calculate_activation_statistics\<close> on a \<^verbatim>\<open>DataLoader\<close> whose iteration may end in an
  exception: the batches before it are processed first, so an exception of the
  processing comes first, and otherwise the pending one is raised.
\<close>

fun statistics_of ::
  "('img, 'lab) fid_env \<Rightarrow> ('img list \<times> 'lab list) list \<times> error option \<Rightarrow> nat
     \<Rightarrow> ('img list \<Rightarrow> tensor4) \<Rightarrow> nat \<Rightarrow> nat \<Rightarrow> error + (ndarray \<times> ndarray)" where
  "statistics_of env (bs, pending) len model batch_size dims =
     (case calculate_activation_statistics (empty_act env) (cov_keeps_single_row env)
             bs len model batch_size dims of
        Inl e \<Rightarrow> Inl e
      | Inr r \<Rightarrow> (case pending of Some e \<Rightarrow> Inl e | None \<Rightarrow> Inr r))"

text \<open>
  \<^verbatim>\<open>get_fid_value(dataloader, vae_model, batch_size = 128)\<close>, lines 154-263, with the
  random draw as the argument \<open>subset_indices\<close>.
  \<^verbatim>\<open>
    length = len(dataloader.dataset)
    model = INCEPTION_V3
    ...
    dims = 2048 # override for now
    ...
    m1, s1 = _calculate_activation_statistics(dataloader_original, length, model, batch_size, dims)
    m2, s2 = _calculate_activation_statistics(dataloader_reconstructed, length, model, batch_size, dims)
    fid_value = _calculate_frechet_distance(m1, s1, m2, s2)
    return fid_value
  \<close>
\<close>

fun get_fid_value ::
  "('img, 'lab) fid_env \<Rightarrow> ('img, 'lab) data_loader \<Rightarrow> ('img list \<Rightarrow> 'img list) \<Rightarrow> nat
     \<Rightarrow> nat list \<Rightarrow> error + ndarray" where
  "get_fid_value env dataloader vae_model batch_size subset_indices =
     (let len = dataset_len dataloader;
          model = INCEPTION_V3 env
      in case materialize env vae_model dataloader batch_size of
           Inl e \<Rightarrow> Inl e
         | Inr (shapeI, original_input, original_label, vae_output) \<Rightarrow>
        (case build_dataloaders env shapeI original_input original_label vae_output
                batch_size subset_indices of
           Inl e \<Rightarrow> Inl e
         | Inr (dataloader_original, dataloader_reconstructed) \<Rightarrow>
             let dims = 2048
             in (case statistics_of env dataloader_original len model batch_size dims of
                   Inl e \<Rightarrow> Inl e
                 | Inr (m1, s1) \<Rightarrow>
                (case statistics_of env dataloader_reconstructed len model batch_size dims of
                   Inl e \<Rightarrow> Inl e
                 | Inr (m2, s2) \<Rightarrow>
                     snd (calculate_frechet_distance (linalg_sqrtm env) m1 s1 m2 s2
                            eps_default)))))"

text \<open>
  What the first batch leaves in an array of \<open>batch_size\<close> rows: the batch itself, or its
  single row repeated \<open>batch_size\<close> times.
\<close>

definition first_rows :: "nat \<Rightarrow> 'a list \<Rightarrow> 'a list" where
  "first_rows batch_size v = (if length v = batch_size then v else replicate batch_size (hd v))"

text \<open>
  A small world to run \<^verbatim>\<open>get_fid_value\<close> in: images and labels are numbers, every image
  has the shape (1, 2, 2), the generative model adds 100 to an image; dataloaders of
  one sample, of no sample and of three samples in one batch.
\<close>

definition toy_env :: "(nat, nat) fid_env" where
  "toy_env = \<lparr>INCEPTION_V3 = flat_net, linalg_sqrtm = sqrtm_4, Resize = (\<lambda>x. x),
     repeat3 = (\<lambda>x. x), img_shape = (\<lambda>x. [1, 2, 2]), empty_img = (\<lambda>i. 0),
     empty_lab = (\<lambda>i. 0), empty_act = nan_junk, cov_keeps_single_row = True\<rparr>"

definition toy_vae :: "nat list \<Rightarrow> nat list" where
  "toy_vae inputs = map (\<lambda>x. x + 100) inputs"

definition one_sample_loader :: "(nat, nat) data_loader" where
  "one_sample_loader = \<lparr>dataset_len = 1, batches = [([5], [7])]\<rparr>"

definition empty_loader :: "(nat, nat) data_loader" where
  "empty_loader = \<lparr>dataset_len = 0, batches = []\<rparr>"

definition three_sample_loader :: "(nat, nat) data_loader" where
  "three_sample_loader = \<lparr>dataset_len = 3, batches = [([5, 6, 8], [7, 7, 9])]\<rparr>"

section \<open>Auxiliary facts\<close>

lemma upt_0_2: "[0..<2] = [0, 1]"
  by (simp add: numeral_2_eq_2)




section \<open>Properties of save\_model\<close>

lemma save_model_paths_coincide:
  assumes "save_model fs model directory metadata filename = Inr (fs', model')"
  shows "files fs' (os_path_join directory filename) = Some (TorchState (state_dict model'))"
  using assms
  by (auto simp: save_model_def write_file_def state_dict_def to_device_def Let_def
      split: list.splits sum.splits if_splits option.splits)

text \<open>
  C9. \<^verbatim>\<open>save_model\<close> is to leave the metadata JSON (keys \<open>img_size\<close>, \<open>latent_dim\<close>,
  \<open>model_type\<close>) in a file beside the serialized state. On the model \<open>tiny_vae\<close> and the
  directory \<open>results\<close> the call returns, the only file it leaves is \<open>results/model.pt\<close>,
  that file holds the serialized state, and no file \<open>results/specs.json\<close> exists: the
  JSON object was written to the path the state is then saved to.
\<close>

theorem save_model_metadata_overwritten:
  "\<exists>fs' m'. save_model empty_fs tiny_vae ''results'' None MODEL_FILENAME = Inr (fs', m')
     \<and> dom (files fs') = {''results/model.pt''}
     \<and> files fs' ''results/model.pt'' = Some (TorchState [(''w'', 7)])
     \<and> files fs' (os_path_join ''results'' META_FILENAME) = None"
  by (simp add: save_model_def write_file_def state_dict_def to_device_def empty_fs_def
      tiny_vae_def MODEL_FILENAME_def META_FILENAME_def os_path_join_def)

section \<open>Properties of \_get\_activations\<close>

lemma nrows_squeeze32: "nrows (squeeze32 t) = size0 t"
  by (simp add: nrows_def squeeze32_def size0_def)

lemma ncols_squeeze32: "ncols (squeeze32 t) = size1 t"
  by (simp add: squeeze32_def)

lemma assign_rows_fits:
  assumes "ncols v = ncols arr" "start + nrows v \<le> nrows arr"
  shows "assign_rows arr start v =
     Inr (Matrix (ncols arr) (take start (rows arr) @ rows v @ drop (start + nrows v) (rows arr)))"
  using assms by (simp add: Let_def min_def nrows_def)

text \<open>
  The loop invariant, as a statement about the loop started in any state: when the
  remaining batches fit below \<open>start\<close>, the loop stores their embeddings in the rows
  \<open>start, start + 1, ...\<close> in order and leaves every other row as it was.
\<close>

lemma activations_loop_fits:
  assumes "list_all (batch_ok model (ncols arr)) dl"
    and "start + sum_list (sample_counts model dl) \<le> nrows arr"
  shows "activations_loop model dl arr start w =
     Inr (Matrix (ncols arr)
            (take start (rows arr) @ embeddings model dl
               @ drop (start + sum_list (sample_counts model dl)) (rows arr)),
          w @ [start ..< start + sum_list (sample_counts model dl)])"
  using assms
proof (induction dl arbitrary: arr start w)
  case Nil
  then show ?case by (cases arr) (simp add: embeddings_def sample_counts_def)
next
  case (Cons b dl)
  obtain batch labels where b: "b = (batch, labels)" by (cases b)
  let ?v = "squeeze32 (model batch)"
  let ?k = "size0 (model batch)"
  let ?rest = "sum_list (sample_counts model dl)"
  let ?arr' = "Matrix (ncols arr) (take start (rows arr) @ rows ?v @ drop (start + ?k) (rows arr))"
  from Cons.prems b have rest_ok: "list_all (batch_ok model (ncols arr)) dl"
    and "batch_ok model (ncols arr) (batch, labels)" by simp_all
  then have ok: "size2 (model batch) = 1" "size3 (model batch) = 1"
    "size1 (model batch) = ncols arr"
    by (simp_all add: batch_ok_def)
  from Cons.prems b have le: "start + ?k + ?rest \<le> nrows arr"
    by (simp add: sample_counts_def)
  have kv: "nrows ?v = ?k" by (rule nrows_squeeze32)
  have lenv: "length (rows ?v) = ?k" using kv by (simp add: nrows_def)
  have asg: "assign_rows arr start ?v = Inr ?arr'"
    using assign_rows_fits[of ?v arr start] ok le by (simp add: ncols_squeeze32 kv)
  have n': "nrows ?arr' = nrows arr" using le by (simp add: nrows_def lenv)
  have IH: "activations_loop model dl ?arr' (start + ?k) (w @ [start ..< start + ?k]) =
     Inr (Matrix (ncols arr)
            (take (start + ?k) (rows ?arr') @ embeddings model dl
               @ drop (start + ?k + ?rest) (rows ?arr')),
          (w @ [start ..< start + ?k]) @ [start + ?k ..< start + ?k + ?rest])"
    using Cons.IH[of ?arr' "start + ?k" "w @ [start ..< start + ?k]"] rest_ok le n'
    by simp
  have tk: "take (start + ?k) (rows ?arr') = take start (rows arr) @ rows ?v"
    using le by (simp add: nrows_def lenv)
  have dr: "drop (start + ?k + ?rest) (rows ?arr') = drop (start + ?k + ?rest) (rows arr)"
    using le by (simp add: nrows_def lenv add.commute add.left_commute)
  have upt: "[start ..< start + ?k] @ [start + ?k ..< start + ?k + ?rest]
      = [start ..< start + ?k + ?rest]"
    by (metis le_add1 upt_add_eq_append)
  have emb: "embeddings model (b # dl) = rows ?v @ embeddings model dl"
    by (simp add: embeddings_def b)
  have cnt: "sum_list (sample_counts model (b # dl)) = ?k + ?rest"
    by (simp add: sample_counts_def b)
  have step: "activations_loop model (b # dl) arr start w =
      activations_loop model dl ?arr' (start + ?k) (w @ [start ..< start + ?k])"
    using ok asg le kv by (simp add: b Let_def min_def del: assign_rows.simps)
  show ?case
    unfolding step IH tk dr emb cnt using upt by (simp add: add.assoc)
qed

lemma activations_loop_spatial:
  assumes "b \<in> set dl" "size2 (model (fst b)) \<noteq> 1 \<or> size3 (model (fst b)) \<noteq> 1"
  shows "activations_loop model dl arr start w = Inl (NameError ''adaptive_avg_pool2d'')
       \<or> activations_loop model dl arr start w = Inl (ValueError ''could not broadcast input array'')"
  using assms
proof (induction dl arbitrary: arr start w)
  case Nil
  then show ?case by simp
next
  case (Cons a dl)
  obtain batch labels where a: "a = (batch, labels)" by (cases a)
  show ?case
  proof (cases "size2 (model batch) \<noteq> 1 \<or> size3 (model batch) \<noteq> 1")
    case True
    then show ?thesis by (simp add: a fid_globals_def)
  next
    case False
    with Cons.prems a have "b \<in> set dl" by auto
    from Cons.IH[OF this Cons.prems(2)] False show ?thesis
      by (auto simp: a Let_def split: sum.splits)
  qed
qed

text \<open>
  C3. A batch whose feature-network output is not a 1 x 1 map per channel is to be
  average-pooled and embedded without failure. In the code the name
  \<^verbatim>\<open>adaptive_avg_pool2d\<close> is not bound in the module, so whenever the dataloader yields such
  a batch the call raises instead of returning: \<^verbatim>\<open>NameError\<close> at the pooling line (or the
  \<^verbatim>\<open>ValueError\<close> of an earlier batch that did not fit the output array).
\<close>

theorem get_activations_spatial_batch_raises:
  assumes "b \<in> set dataloader"
    and "size2 (model (fst b)) \<noteq> 1 \<or> size3 (model (fst b)) \<noteq> 1"
  shows "get_activations junk dataloader len model batch_size dims
           = Inl (NameError ''adaptive_avg_pool2d'')
       \<or> get_activations junk dataloader len model batch_size dims
           = Inl (ValueError ''could not broadcast input array'')"
  using activations_loop_spatial[of b dataloader model "np_empty junk len dims" 0 "[]"] assms
  by (simp add: Let_def)

theorem get_activations_spatial_batch_raises_witness:
  "get_activations nan_junk three_batches 10 spatial_net 128 1
     = Inl (NameError ''adaptive_avg_pool2d'')"
  using get_activations_spatial_batch_raises
    [of "([0, 1, 2, 3], [0, 0, 0, 0])" three_batches spatial_net nan_junk 10 128 1]
  by (simp add: three_batches_def spatial_net_def fid_globals_def Let_def)

text \<open>
  C8, as amended. When every batch's feature-network output is a 1 x 1 map per channel with
  \<open>dims\<close> channels and the batches' sample counts sum to the declared length, the call
  returns the array whose rows are the concatenation of the batches' embeddings in
  iteration order, and the rows written are \<open>0, 1, ..., length - 1\<close> in this order:
  every row once, none twice.
\<close>

theorem get_activations_rows_in_order:
  assumes "list_all (batch_ok model dims) dataloader"
    and "sum_list (sample_counts model dataloader) = len"
  shows "get_activations junk dataloader len model batch_size dims
           = Inr (Matrix dims (embeddings model dataloader), [0 ..< len])"
proof -
  let ?arr = "np_empty junk len dims"
  have nc: "ncols ?arr = dims" and nr: "nrows ?arr = len"
    by (simp_all add: np_empty_def nrows_def)
  have "activations_loop model dataloader ?arr 0 [] =
     Inr (Matrix (ncols ?arr)
            (take 0 (rows ?arr) @ embeddings model dataloader
               @ drop (0 + sum_list (sample_counts model dataloader)) (rows ?arr)),
          [] @ [0 ..< 0 + sum_list (sample_counts model dataloader)])"
    by (rule activations_loop_fits) (simp_all add: nc nr assms)
  then show ?thesis
    using assms(2) nr by (simp add: Let_def nc nrows_def)
qed

theorem get_activations_rows_in_order_witness:
  "list_all (batch_ok flat_net 2) three_batches
   \<and> sum_list (sample_counts flat_net three_batches) = 10
   \<and> get_activations nan_junk three_batches 10 flat_net 128 2
       = Inr (Matrix 2 [[Fin 0, Fin 100], [Fin 1, Fin 101], [Fin 2, Fin 102], [Fin 3, Fin 103],
                        [Fin 4, Fin 104], [Fin 5, Fin 105], [Fin 6, Fin 106], [Fin 7, Fin 107],
                        [Fin 8, Fin 108], [Fin 9, Fin 109]],
              [0 ..< 10])"
proof -
  have ok: "list_all (batch_ok flat_net 2) three_batches"
    by (simp add: three_batches_def batch_ok_def flat_net_def)
  have cnt: "sum_list (sample_counts flat_net three_batches) = 10"
    by (simp add: three_batches_def sample_counts_def flat_net_def size0_def)
  have emb: "embeddings flat_net three_batches =
      [[Fin 0, Fin 100], [Fin 1, Fin 101], [Fin 2, Fin 102], [Fin 3, Fin 103],
       [Fin 4, Fin 104], [Fin 5, Fin 105], [Fin 6, Fin 106], [Fin 7, Fin 107],
       [Fin 8, Fin 108], [Fin 9, Fin 109]]"
    by (simp add: three_batches_def embeddings_def flat_net_def squeeze32_def)
  show ?thesis
    using get_activations_rows_in_order[OF ok cnt, of nan_junk 128] ok cnt emb by simp
qed

text \<open>
  C8 as stated fails: that the sample counts sum to the declared length is not enough.
  Three images in batches of 2 and 1, with the length 3 declared: a network whose output
  is a 2 x 2 map per channel makes the call raise \<^verbatim>\<open>NameError\<close>; a network of two
  channels with \<open>dims = 3\<close> makes it raise \<^verbatim>\<open>ValueError\<close>; a network of one channel
  with \<open>dims = 2\<close> makes it return rows that repeat the one feature, which are not
  the embeddings.
\<close>

theorem get_activations_unfit_batches_counterexample:
  "sum_list (sample_counts spatial_net two_batches) = 3
   \<and> get_activations nan_junk two_batches 3 spatial_net 128 1
       = Inl (NameError ''adaptive_avg_pool2d'')
   \<and> sum_list (sample_counts flat_net two_batches) = 3
   \<and> get_activations nan_junk two_batches 3 flat_net 128 3
       = Inl (ValueError ''could not broadcast input array'')
   \<and> sum_list (sample_counts one_feature_net two_batches) = 3
   \<and> embeddings one_feature_net two_batches = [[Fin 1], [Fin 3], [Fin 5]]
   \<and> get_activations nan_junk two_batches 3 one_feature_net 128 2
       = Inr (Matrix 2 [[Fin 1, Fin 1], [Fin 3, Fin 3], [Fin 5, Fin 5]], [0, 1, 2])"
  by (simp add: two_batches_def spatial_net_def flat_net_def one_feature_net_def
      sample_counts_def embeddings_def size0_def squeeze32_def np_empty_def nrows_def
      fid_globals_def Let_def numeral_3_eq_3 numeral_2_eq_2 upt_0_2)

section \<open>Properties of the floating-point model\<close>

lemma round_half_even_of_int: "round_half_even (of_int k) = k"
  by (simp add: round_half_even_def)


lemma log2_powi: "log 2 (2 powi k) = of_int k"
proof -
  have "(2::real) powi k = 2 powr of_int k"
    by (simp add: powr_real_of_int')
  then show ?thesis by simp
qed

lemma floor_log2_le:
  assumes "0 < x" "x < 2 powi k"
  shows "\<lfloor>log 2 x\<rfloor> < k"
proof -
  have "log 2 x < log 2 (2 powi k)" using assms by simp
  also have "log 2 (2 powi k) = of_int k"
    by (rule log2_powi)
  finally show ?thesis by linarith
qed



text \<open>A value \<open>n * 2^j\<close> with a 53-bit \<open>n\<close> and an exponent in range is a float64 value.\<close>

lemma round64_exact:
  assumes n: "\<bar>n\<bar> < 2 ^ 53" and j: "- 1074 \<le> j" "j \<le> 971"
  shows "round64 (of_int n * 2 powi j) = Fin (of_int n * 2 powi j)"
proof (cases "n = 0")
  case True
  then show ?thesis by (simp add: round64_def)
next
  case False
  define x :: real where "x = of_int n * 2 powi j"
  define e where "e = ulp_exponent x"
  have x0: "x \<noteq> 0" using False by (simp add: x_def)
  have absx: "\<bar>x\<bar> = of_int \<bar>n\<bar> * 2 powi j" by (simp add: x_def abs_mult)
  have "real_of_int \<bar>n\<bar> < 2 ^ 53"
    using n by (metis of_int_less_numeral_power_cancel_iff)
  then have "\<bar>x\<bar> < 2 ^ 53 * 2 powi j"
    unfolding absx by (rule mult_strict_right_mono) simp
  also have "(2::real) ^ 53 * 2 powi j = 2 powi (53 + j)"
    by (simp add: power_int_add)
  finally have lt: "\<bar>x\<bar> < 2 powi (53 + j)" .
  then have "\<lfloor>log 2 \<bar>x\<bar>\<rfloor> < 53 + j"
    using x0 by (intro floor_log2_le) simp_all
  then have ej: "e \<le> j" using j by (simp add: e_def ulp_exponent_def)
  define d where "d = nat (j - e)"
  have jd: "j = e + int d" using ej by (simp add: d_def)
  have pj: "(2::real) powi j = 2 ^ d * 2 powi e"
    by (subst jd) (simp add: power_int_add)
  have q: "\<bar>x\<bar> / 2 powi e = of_int (\<bar>n\<bar> * 2 ^ d)"
    by (simp add: absx pj)
  have y: "of_int (round_half_even (\<bar>x\<bar> / 2 powi e)) * 2 powi e = \<bar>x\<bar>"
    by (simp only: q round_half_even_of_int) (simp add: absx pj)
  have "\<bar>x\<bar> < 2 powi (53 + j)" by fact
  also have "\<dots> \<le> 2 powi 1024" using j by (intro power_int_increasing) simp_all
  finally have bound: "\<bar>x\<bar> < 2 ^ 1024" by simp
  have "sgn x * \<bar>x\<bar> = x" by (simp add: sgn_mult_abs)
  then have "round64 x = Fin x"
    using x0 bound y by (simp add: round64_def Let_def e_def[symmetric])
  then show ?thesis by (simp add: x_def)
qed

lemma round64_int:
  assumes "x \<in> \<int>" "\<bar>x\<bar> < 2 ^ 53"
  shows "round64 x = Fin x"
proof -
  from assms(1) obtain n where x: "x = of_int n" by (auto elim: Ints_cases)
  have "\<bar>n\<bar> < 2 ^ 53" using assms(2) unfolding x
    by (metis of_int_abs of_int_less_numeral_power_cancel_iff)
  from round64_exact[OF this, of 0] show ?thesis by (simp add: x)
qed


text \<open>Integers below \<open>2^53\<close> are float64 values, and arithmetic that stays among them is exact.\<close>

lemma fl_add_zero_right: "fl_add x (Fin 0) = x"
  by (cases x) simp_all







section \<open>Properties of \_calculate\_frechet\_distance\<close>

text \<open>
  On a well-formed square matrix and a finite \<open>eps\<close>, the code's
  \<^verbatim>\<open>sigma + np.eye(sigma.shape[0]) * eps\<close> adds \<open>eps\<close> to the diagonal and nothing else.
\<close>

lemma eye_entry: "fl_mul (Fin (if i = j then 1 else 0)) (Fin e) = (if i = j then Fin e else Fin 0)"
  by simp

lemma mat_add_eye:
  assumes "wf_matrix m" "nrows m = ncols m"
  shows "mat_add m (eye_times (nrows m) (Fin e)) = add_to_diagonal (Fin e) m"
proof -
  let ?n = "nrows m"
  have len: "length (rows m) = ?n" by (simp add: nrows_def)
  have rowlen: "\<And>i. i < ?n \<Longrightarrow> length (rows m ! i) = ?n"
    using assms by (simp add: wf_matrix_def list_all_length nrows_def)
  have "map2 (map2 fl_add) (rows m) (rows (eye_times ?n (Fin e)))
      = map (\<lambda>i. (rows m ! i)[i := fl_add (rows m ! i ! i) (Fin e)]) [0..<?n]"
  proof (rule nth_equalityI)
    show "length (map2 (map2 fl_add) (rows m) (rows (eye_times ?n (Fin e))))
        = length (map (\<lambda>i. (rows m ! i)[i := fl_add (rows m ! i ! i) (Fin e)]) [0..<?n])"
      by (simp add: eye_times_def len)
  next
    fix i assume "i < length (map2 (map2 fl_add) (rows m) (rows (eye_times ?n (Fin e))))"
    then have i: "i < ?n" by (simp add: eye_times_def len)
    have "map2 fl_add (rows m ! i) (map (\<lambda>j. if i = j then Fin e else Fin 0) [0..<?n])
        = (rows m ! i)[i := fl_add (rows m ! i ! i) (Fin e)]"
      by (rule nth_equalityI)
        (auto simp: rowlen[OF i] nth_list_update fl_add_zero_right simp del: fl_add.simps)
    then show "map2 (map2 fl_add) (rows m) (rows (eye_times ?n (Fin e))) ! i
        = map (\<lambda>i. (rows m ! i)[i := fl_add (rows m ! i ! i) (Fin e)]) [0..<?n] ! i"
      using i by (simp add: eye_times_def len eye_entry del: fl_mul.simps)
  qed
  then show ?thesis by (simp add: add_to_diagonal_def)
qed

lemma mat_dot_square:
  assumes "mat_dot a b = Inr p" "mshape a = mshape b"
  shows "nrows a = ncols a"
  using assms by (simp split: if_splits)

lemma nrows_add_to_diagonal: "nrows (add_to_diagonal eps m) = nrows m"
  and ncols_add_to_diagonal: "ncols (add_to_diagonal eps m) = ncols m"
  by (simp_all add: add_to_diagonal_def nrows_def)

text \<open>
  C4, as amended. The shapes the assertions compare are those after
  \<^verbatim>\<open>np.atleast_1d\<close> and \<^verbatim>\<open>np.atleast_2d\<close>. When the promoted means differ in shape, or the
  promoted covariances do, the call raises \<^verbatim>\<open>AssertionError\<close> at once: \<open>sqrtm\<close> has not
  been called and no number is returned.
\<close>

theorem frechet_shape_mismatch_raises:
  assumes "shape (atleast_1d mu1) \<noteq> shape (atleast_1d mu2)
         \<or> mshape (atleast_2d sigma1) \<noteq> mshape (atleast_2d sigma2)"
  shows "\<exists>msg. calculate_frechet_distance sqrtm mu1 sigma1 mu2 sigma2 eps
           = ([], Inl (AssertionError msg))"
  using assms by (auto simp: Let_def)

text \<open>
  C4 as stated fails: a scalar mean 3 (shape \<open>()\<close>) and a one-entry mean (shape
  \<open>(1,)\<close>), with a scalar covariance 4 and a 1 x 1 covariance, have different shapes, and
  the call returns the number 5 = (3 - 1)^2 + 4 + 1 - 2 * 2.
\<close>

theorem frechet_scalar_mean_counterexample:
  "shape (Arr0 (Fin 3)) \<noteq> shape (Arr1 [Fin 1])
   \<and> shape (Arr0 (Fin 4)) \<noteq> shape (Arr2 (Matrix 1 [[Fin 1]]))
   \<and> calculate_frechet_distance sqrtm_4 (Arr0 (Fin 3)) (Arr0 (Fin 4)) (Arr1 [Fin 1])
        (Arr2 (Matrix 1 [[Fin 1]])) eps_default
       = ([Matrix 1 [[Fin 4]]], Inr (Arr0 (Fin 5)))"
  by (simp add: sqrtm_4_def sqrtm_of_table_def nrows_def inner_def column_def trace_def
      diagonal_def fl_sub_def fl_sum_def round64_int Let_def)

text \<open>Lines 111-118 on their own: one retry, on the perturbed covariances.\<close>

lemma covmean_retry:
  assumes wf: "wf_matrix sigma1" "wf_matrix sigma2"
    and sh: "mshape sigma1 = mshape sigma2"
    and prod: "mat_dot sigma1 sigma2 = Inr product"
    and first: "sqrtm product = Inr covmean"
  shows "\<exists>product'.
      mat_dot (add_to_diagonal (Fin e) sigma1) (add_to_diagonal (Fin e) sigma2) = Inr product'
    \<and> covmean_of sqrtm sigma1 sigma2 (Fin e) =
        (if isfinite_all covmean then ([product], Inr covmean)
         else ([product, product'], sqrtm product'))"
proof -
  have sq1: "nrows sigma1 = ncols sigma1" using mat_dot_square[OF prod sh] .
  from sh have eqs: "nrows sigma2 = nrows sigma1" "ncols sigma2 = ncols sigma1" by simp_all
  have sq2: "nrows sigma2 = ncols sigma2" using sq1 eqs by simp
  have a1: "mat_add sigma1 (eye_times (nrows sigma1) (Fin e)) = add_to_diagonal (Fin e) sigma1"
    by (rule mat_add_eye[OF wf(1) sq1])
  have a2: "mat_add sigma2 (eye_times (nrows sigma1) (Fin e)) = add_to_diagonal (Fin e) sigma2"
    using mat_add_eye[OF wf(2) sq2] eqs by simp
  have al: "ncols (add_to_diagonal (Fin e) sigma1) = nrows (add_to_diagonal (Fin e) sigma2)"
    using sq1 eqs by (simp add: nrows_add_to_diagonal ncols_add_to_diagonal)
  obtain product' where p': "mat_dot (add_to_diagonal (Fin e) sigma1) (add_to_diagonal (Fin e) sigma2) = Inr product'"
    using al by simp
  have "covmean_of sqrtm sigma1 sigma2 (Fin e) =
        (if isfinite_all covmean then ([product], Inr covmean)
         else ([product, product'], sqrtm product'))"
    using prod first p' a1 a2 by (simp add: Let_def del: mat_dot.simps mat_add.simps)
  with p' show ?thesis by blast
qed

lemma exceeds_iff: "exceeds_tolerance x = (\<not> close_to_zero x)"
  by (cases x) (auto simp: atol_def)

lemma allclose_zero_iff: "allclose_zero xs = (\<not> list_ex exceeds_tolerance xs)"
  by (induction xs) (auto simp: allclose_zero_def exceeds_iff)

text \<open>
  \<^verbatim>\<open>np.max(np.abs(xs))\<close> of a non-empty array is its largest magnitude.
\<close>

lemma largest_magnitude_single: "largest_magnitude [x] = fl_abs x"
  by (cases x) (simp_all add: largest_magnitude_def)

lemma largest_magnitude_snoc:
  assumes "ys \<noteq> []"
  shows "fl_max (largest_magnitude ys) (fl_abs x) = largest_magnitude (ys @ [x])"
proof -
  have ne: "magnitude ` set ys \<noteq> {}" using assms by simp
  have fin: "finite (magnitude ` set ys)" by simp
  show ?thesis
    by (cases x) (auto simp: largest_magnitude_def Max_insert[OF fin ne] max.commute)
qed

lemma foldl_fl_max_abs:
  assumes "ys \<noteq> []"
  shows "foldl fl_max (largest_magnitude ys) (map fl_abs xs) = largest_magnitude (ys @ xs)"
  using assms
proof (induction xs arbitrary: ys)
  case Nil
  then show ?case by simp
next
  case (Cons x xs)
  have "foldl fl_max (largest_magnitude ys) (map fl_abs (x # xs))
      = foldl fl_max (largest_magnitude (ys @ [x])) (map fl_abs xs)"
    using largest_magnitude_snoc[OF Cons.prems] by simp
  also have "\<dots> = largest_magnitude ((ys @ [x]) @ xs)"
    by (rule Cons.IH) simp
  finally show ?case by simp
qed

lemma np_max_abs:
  assumes "xs \<noteq> []"
  shows "np_max (map fl_abs xs) = Inr (largest_magnitude xs)"
proof -
  from assms obtain y ys where xs: "xs = y # ys" by (cases xs) auto
  have "foldl fl_max (largest_magnitude [y]) (map fl_abs ys) = largest_magnitude ([y] @ ys)"
    by (rule foldl_fl_max_abs) simp
  then show ?thesis by (simp add: xs largest_magnitude_single)
qed

lemma max_abs_imag_largest:
  assumes "wf_cmatrix c" "diagonal_imag c \<noteq> []"
  shows "max_abs_imag c = Inr (largest_magnitude (imaginary_parts c))"
proof -
  from assms(2) have pos: "0 < nrows (imag c)" "0 < ncols (imag c)"
    by (auto simp: diagonal_imag_def diagonal_def)
  then obtain r rs where rs: "crows c = r # rs"
    by (cases "crows c") (auto simp: imag_def nrows_def)
  with assms(1) pos have "r \<noteq> []"
    by (auto simp: wf_cmatrix_def imag_def)
  then have "imaginary_parts c \<noteq> []" using rs by (simp add: imaginary_parts_def)
  from np_max_abs[OF this] show ?thesis
    by (simp add: max_abs_imag_def imaginary_parts_def imag_def)
qed

text \<open>
  C6. Let the square root that leaves lines 111-118 (recomputed or not) be complex. When
  the imaginary part of some entry of its diagonal exceeds the tolerance \<open>1e-3\<close> in
  absolute value, the call raises the \<^verbatim>\<open>ValueError\<close> whose message carries the largest
  absolute value among the imaginary parts of all the entries of the array. Otherwise the
  imaginary part is dropped and the distance is computed from the real component alone.
\<close>

theorem frechet_complex_root:
  assumes "shape (atleast_1d mu1) = shape (atleast_1d mu2)"
    and "mshape (atleast_2d sigma1) = mshape (atleast_2d sigma2)"
    and "covmean_of sqrtm (atleast_2d sigma1) (atleast_2d sigma2) eps
           = (calls, Inr (ComplexResult c))"
    and "wf_cmatrix c"
  shows "snd (calculate_frechet_distance sqrtm mu1 sigma1 mu2 sigma2 eps)
           = (if list_ex exceeds_tolerance (diagonal_imag c)
              then Inl (ValueError_Imaginary_component (largest_magnitude (imaginary_parts c)))
              else distance_of (arr_sub (atleast_1d mu1) (atleast_1d mu2))
                     (atleast_2d sigma1) (atleast_2d sigma2) (real_part c))"
proof (cases "list_ex exceeds_tolerance (diagonal_imag c)")
  case True
  then have "diagonal_imag c \<noteq> []" by auto
  from max_abs_imag_largest[OF assms(4) this]
  have m: "max_abs_imag c = Inr (largest_magnitude (imaginary_parts c))" .
  from True have "\<not> allclose_zero (diagonal_imag c)" by (simp add: allclose_zero_iff)
  with m assms(1-3) True show ?thesis
    by (simp add: Let_def del: covmean_of.simps distance_of.simps)
next
  case False
  then have "allclose_zero (diagonal_imag c)" by (simp add: allclose_zero_iff)
  with assms(1-3) False show ?thesis
    by (simp add: Let_def del: covmean_of.simps distance_of.simps)
qed











lemma mat_dot_ab: "mat_dot sigma_a sigma_b = Inr (Matrix 2 [[Fin 4, Fin 0], [Fin 0, Fin 4]])"
  by (simp add: sigma_a_def sigma_b_def nrows_def inner_def column_def fl_sum_def upt_0_2)

lemma mat_dot_eye2: "mat_dot eye2 eye2 = Inr eye2"
  by (simp add: eye2_def nrows_def inner_def column_def fl_sum_def upt_0_2)

lemma sqrtm_complex_ab:
  "sqrtm_complex im (Matrix 2 [[Fin 4, Fin 0], [Fin 0, Fin 4]]) = Inr (ComplexResult (root_ab im))"
  by (simp add: sqrtm_complex_def sqrtm_of_table_def)

lemma diagonal_imag_ab: "diagonal_imag (root_ab im) = [im, Fin 0]"
  by (simp add: diagonal_imag_def diagonal_def imag_def root_ab_def nrows_def upt_0_2)



theorem frechet_shape_mismatch_raises_witness:
  "calculate_frechet_distance sqrtm_4 (fvec [0, 0, 0, 0, 0]) (Arr0 (Fin 1))
       (fvec [0, 0, 0, 0, 0, 0, 0]) (Arr0 (Fin 1)) eps_default
     = ([], Inl (AssertionError ''Training and test mean vectors have different lengths''))"
  using frechet_shape_mismatch_raises[of "fvec [0, 0, 0, 0, 0]" "fvec [0, 0, 0, 0, 0, 0, 0]"
      "Arr0 (Fin 1)" "Arr0 (Fin 1)" sqrtm_4 eps_default]
  by (simp add: fvec_def Let_def)

text \<open>
  C5. Let the assertions pass and the first square root be \<open>covmean\<close>. If it is finite,
  \<open>sqrtm\<close> is called once and \<open>covmean\<close> is kept. If it is not, \<open>eps\<close> is added to the
  diagonal of each covariance, \<open>sqrtm\<close> is called a second and last time on the product
  of the perturbed covariances, and whatever it returns is kept.
\<close>

theorem frechet_perturbs_once:
  assumes "shape (atleast_1d mu1) = shape (atleast_1d mu2)"
    and sh: "mshape (atleast_2d sigma1) = mshape (atleast_2d sigma2)"
    and wf: "wf_matrix (atleast_2d sigma1)" "wf_matrix (atleast_2d sigma2)"
    and prod: "mat_dot (atleast_2d sigma1) (atleast_2d sigma2) = Inr product"
    and first: "sqrtm product = Inr covmean"
  shows "\<exists>product'.
      mat_dot (add_to_diagonal (Fin e) (atleast_2d sigma1))
              (add_to_diagonal (Fin e) (atleast_2d sigma2)) = Inr product'
    \<and> fst (calculate_frechet_distance sqrtm mu1 sigma1 mu2 sigma2 (Fin e))
        = (if isfinite_all covmean then [product] else [product, product'])
    \<and> covmean_of sqrtm (atleast_2d sigma1) (atleast_2d sigma2) (Fin e)
        = (if isfinite_all covmean then ([product], Inr covmean)
           else ([product, product'], sqrtm product'))"
proof -
  from covmean_retry[of "atleast_2d sigma1" "atleast_2d sigma2" product sqrtm covmean e]
    wf sh prod first obtain product' where
    p: "mat_dot (add_to_diagonal (Fin e) (atleast_2d sigma1))
              (add_to_diagonal (Fin e) (atleast_2d sigma2)) = Inr product'"
    and c: "covmean_of sqrtm (atleast_2d sigma1) (atleast_2d sigma2) (Fin e)
        = (if isfinite_all covmean then ([product], Inr covmean)
           else ([product, product'], sqrtm product'))"
    by blast
  have "fst (calculate_frechet_distance sqrtm mu1 sigma1 mu2 sigma2 (Fin e))
      = fst (covmean_of sqrtm (atleast_2d sigma1) (atleast_2d sigma2) (Fin e))"
    using assms(1) sh
    by (simp add: Let_def split: prod.splits sum.splits
        del: covmean_of.simps distance_of.simps discard_imaginary.simps)
  with p c show ?thesis by (intro exI[of _ product']) simp
qed

theorem frechet_perturbs_once_witness:
  "fst (calculate_frechet_distance sqrtm_singular (fvec [3, 1]) (Arr2 zero2) (fvec [1, 1])
         (Arr2 zero2) (Fin 1))
     = [zero2, eye2]
   \<and> snd (calculate_frechet_distance sqrtm_singular (fvec [3, 1]) (Arr2 zero2) (fvec [1, 1])
         (Arr2 zero2) (Fin 1))
     = Inr (Arr0 (Fin 0))"
proof -
  have prod: "mat_dot (atleast_2d (Arr2 zero2)) (atleast_2d (Arr2 zero2)) = Inr zero2"
    by (simp add: zero2_def nrows_def inner_def column_def fl_sum_def upt_0_2)
  have first: "sqrtm_singular zero2 = Inr (RealResult nan2)"
    by (simp add: sqrtm_singular_def sqrtm_of_table_def)
  have wf: "wf_matrix (atleast_2d (Arr2 zero2))"
    by (simp add: wf_matrix_def zero2_def)
  have pert: "add_to_diagonal (Fin 1) zero2 = eye2"
    by (simp add: add_to_diagonal_def zero2_def eye2_def nrows_def upt_0_2)
  have p': "mat_dot (add_to_diagonal (Fin 1) zero2) (add_to_diagonal (Fin 1) zero2) = Inr eye2"
    by (simp only: pert mat_dot_eye2)
  have nf: "\<not> isfinite_all (RealResult nan2)" by (simp add: nan2_def)
  have second: "sqrtm_singular eye2 = Inr (RealResult eye2)"
    by (simp add: sqrtm_singular_def sqrtm_of_table_def zero2_def eye2_def)
  have both: "fst (calculate_frechet_distance sqrtm_singular (fvec [3, 1]) (Arr2 zero2)
         (fvec [1, 1]) (Arr2 zero2) (Fin 1)) = [zero2, eye2]
     \<and> covmean_of sqrtm_singular zero2 zero2 (Fin 1) = ([zero2, eye2], Inr (RealResult eye2))"
    using frechet_perturbs_once[of "fvec [3, 1]" "fvec [1, 1]" "Arr2 zero2" "Arr2 zero2" zero2
        sqrtm_singular "RealResult nan2" 1, OF _ _ wf wf prod first] p' nf second
    by (simp add: fvec_def
        del: calculate_frechet_distance.simps covmean_of.simps mat_dot.simps)
  have dist: "distance_of (arr_sub (Arr1 [Fin 3, Fin 1]) (Arr1 [Fin 1, Fin 1])) zero2 zero2 eye2
      = Inr (Arr0 (Fin 0))"
    by (simp add: zero2_def eye2_def trace_def diagonal_def nrows_def inner_def fl_sum_def
        fl_sub_def upt_0_2 round64_int)
  have val: "snd (calculate_frechet_distance sqrtm_singular (fvec [3, 1]) (Arr2 zero2)
         (fvec [1, 1]) (Arr2 zero2) (Fin 1)) = Inr (Arr0 (Fin 0))"
    using both dist
    by (simp add: fvec_def Let_def del: covmean_of.simps distance_of.simps arr_sub.simps)
  from both val show ?thesis by simp
qed

theorem frechet_complex_root_witness:
  "snd (calculate_frechet_distance (sqrtm_complex (Fin (- 1 / 512))) (fvec [3, 1])
          (Arr2 sigma_a) (fvec [1, 1]) (Arr2 sigma_b) eps_default)
     = Inl (ValueError_Imaginary_component (Fin 8))
   \<and> snd (calculate_frechet_distance (sqrtm_complex (Fin (- 1152921504606847 / 2 ^ 60)))
          (fvec [3, 1]) (Arr2 sigma_a) (fvec [1, 1]) (Arr2 sigma_b) eps_default)
     = Inr (Arr0 (Fin 6))"
proof -
  have shapes: "shape (atleast_1d (fvec [3, 1])) = shape (atleast_1d (fvec [1, 1]))"
    "mshape (atleast_2d (Arr2 sigma_a)) = mshape (atleast_2d (Arr2 sigma_b))"
    by (simp_all add: fvec_def nrows_def sigma_a_def sigma_b_def)
  have wf: "wf_cmatrix (root_ab im)" for im
    by (simp add: wf_cmatrix_def root_ab_def)
  have cm: "covmean_of (sqrtm_complex (Fin x)) (atleast_2d (Arr2 sigma_a))
        (atleast_2d (Arr2 sigma_b)) eps_default
      = ([Matrix 2 [[Fin 4, Fin 0], [Fin 0, Fin 4]]], Inr (ComplexResult (root_ab (Fin x))))" for x
    using mat_dot_ab sqrtm_complex_ab[of "Fin x"]
    by (simp add: root_ab_def del: mat_dot.simps)
  have mx: "largest_magnitude (imaginary_parts (root_ab (Fin (- 1 / 512)))) = Fin 8"
    by (simp add: largest_magnitude_def imaginary_parts_def root_ab_def)
  have dist: "distance_of (arr_sub (atleast_1d (fvec [3, 1])) (atleast_1d (fvec [1, 1])))
        (atleast_2d (Arr2 sigma_a)) (atleast_2d (Arr2 sigma_b))
        (real_part (root_ab (Fin (- 1152921504606847 / 2 ^ 60)))) = Inr (Arr0 (Fin 6))"
    by (simp add: fvec_def sigma_a_def sigma_b_def real_part_def root_ab_def
        trace_def diagonal_def nrows_def inner_def fl_sum_def fl_sub_def upt_0_2 round64_int)
  have raises: "snd (calculate_frechet_distance (sqrtm_complex (Fin (- 1 / 512))) (fvec [3, 1])
          (Arr2 sigma_a) (fvec [1, 1]) (Arr2 sigma_b) eps_default)
     = Inl (ValueError_Imaginary_component (Fin 8))"
    using frechet_complex_root[OF shapes cm[of "- 1 / 512"] wf] mx
    by (simp add: diagonal_imag_ab del: calculate_frechet_distance.simps)
  have discards: "snd (calculate_frechet_distance
          (sqrtm_complex (Fin (- 1152921504606847 / 2 ^ 60))) (fvec [3, 1])
          (Arr2 sigma_a) (fvec [1, 1]) (Arr2 sigma_b) eps_default)
     = Inr (Arr0 (Fin 6))"
    using frechet_complex_root[OF shapes cm[of "- 1152921504606847 / 2 ^ 60"] wf] dist
    by (simp add: diagonal_imag_ab del: calculate_frechet_distance.simps distance_of.simps
        arr_sub.simps atleast_1d.simps atleast_2d.simps)
  from raises discards show ?thesis by simp
qed

section \<open>Properties of \_calculate\_activation\_statistics\<close>













section \<open>Properties of get\_fid\_value\<close>

text \<open>After the first batch the loop only appends.\<close>

lemma vae_loop_append:
  "count \<noteq> 0 \<Longrightarrow>
   vae_loop vae_model rest (oi, ol, vo) count
     = Inr (oi @ concat (map fst rest), ol @ concat (map snd rest),
            vo @ concat (map (\<lambda>b. vae_model (fst b)) rest))"
proof (induction rest arbitrary: oi ol vo count)
  case Nil
  then show ?case by simp
next
  case (Cons b rest)
  obtain inputs labels where b: "b = (inputs, labels)" by (cases b)
  from Cons.prems Cons.IH[of "count + 1" "oi @ inputs" "ol @ labels" "vo @ vae_model inputs"]
  show ?case by (simp add: b Let_def)
qed

lemma assign_all_cases:
  "assign_all (map f [0..<batch_size]) v =
     (if length v = batch_size \<or> length v = 1 then Inr (first_rows batch_size v)
      else Inl (ValueError ''could not broadcast input array''))"
  by (auto simp: first_rows_def)

text \<open>
  C10, as amended. The three arrays are allocated with \<open>batch_size\<close> rows and the whole
  first batch is assigned to them. With no batch at all the function raises
  \<^verbatim>\<open>UnboundLocalError\<close> before it allocates anything. Otherwise, for a first batch of
  \<open>k\<close> samples: if \<open>k = batch_size\<close> the batch fills the arrays, if \<open>k = 1\<close> the single
  sample is broadcast to all \<open>batch_size\<close> rows, and for any other \<open>k\<close> the assignment
  raises \<^verbatim>\<open>ValueError\<close> (nothing is clamped); the later batches are appended.
\<close>

theorem materialize_first_batch:
  "(batches dataloader = [] \<longrightarrow>
      materialize env vae_model dataloader batch_size = Inl (UnboundLocalError ''shapeI''))
   \<and> (\<forall>inputs labels rest.
        batches dataloader = (inputs, labels) # rest \<and> inputs \<noteq> []
          \<and> length labels = length inputs \<and> length (vae_model inputs) = length inputs \<longrightarrow>
        materialize env vae_model dataloader batch_size =
          (if length inputs = batch_size \<or> length inputs = 1
           then Inr (img_shape env (hd inputs),
                     first_rows batch_size inputs @ concat (map fst rest),
                     first_rows batch_size labels @ concat (map snd rest),
                     first_rows batch_size (vae_model inputs)
                       @ concat (map (\<lambda>b. vae_model (fst b)) rest))
           else Inl (ValueError ''could not broadcast input array'')))"
proof (intro conjI allI impI)
  assume "batches dataloader = []"
  then show "materialize env vae_model dataloader batch_size = Inl (UnboundLocalError ''shapeI'')"
    by simp
next
  fix inputs labels rest
  assume a: "batches dataloader = (inputs, labels) # rest \<and> inputs \<noteq> []
          \<and> length labels = length inputs \<and> length (vae_model inputs) = length inputs"
  then have lab: "labels \<noteq> []" by auto
  let ?oi = "map (empty_img env) [0..<batch_size]"
  let ?ol = "map (empty_lab env) [0..<batch_size]"
  have loop: "vae_loop vae_model ((inputs, labels) # rest) (?oi, ?ol, ?oi) 0 =
      (if length inputs = batch_size \<or> length inputs = 1
       then Inr (first_rows batch_size inputs @ concat (map fst rest),
                 first_rows batch_size labels @ concat (map snd rest),
                 first_rows batch_size (vae_model inputs)
                   @ concat (map (\<lambda>b. vae_model (fst b)) rest))
       else Inl (ValueError ''could not broadcast input array''))"
    using a by (simp add: assign_all_cases vae_loop_append Let_def del: assign_all.simps)
  show "materialize env vae_model dataloader batch_size =
          (if length inputs = batch_size \<or> length inputs = 1
           then Inr (img_shape env (hd inputs),
                     first_rows batch_size inputs @ concat (map fst rest),
                     first_rows batch_size labels @ concat (map snd rest),
                     first_rows batch_size (vae_model inputs)
                       @ concat (map (\<lambda>b. vae_model (fst b)) rest))
           else Inl (ValueError ''could not broadcast input array''))"
    using a lab loop by (simp add: Let_def del: vae_loop.simps)
qed

theorem materialize_first_batch_witness:
  "materialize toy_env toy_vae three_sample_loader 4
     = Inl (ValueError ''could not broadcast input array'')
   \<and> materialize toy_env toy_vae three_sample_loader 3
     = Inr ([1, 2, 2], [5, 6, 8], [7, 7, 9], [105, 106, 108])
   \<and> materialize toy_env toy_vae empty_loader 3 = Inl (UnboundLocalError ''shapeI'')"
  using materialize_first_batch[of three_sample_loader toy_env toy_vae 4]
    materialize_first_batch[of three_sample_loader toy_env toy_vae 3]
    materialize_first_batch[of empty_loader toy_env toy_vae 3]
  by (simp add: three_sample_loader_def empty_loader_def toy_vae_def toy_env_def first_rows_def
      del: materialize.simps)

text \<open>
  C10 as stated fails twice. A dataset of one sample has fewer samples than
  \<open>batch_size = 2\<close>, and the first-batch write succeeds: the sample is stored in both
  rows. And with an empty dataloader the function raises instead of leaving two
  uninitialised rows in each array.
\<close>

theorem materialize_one_sample_counterexample:
  "dataset_len one_sample_loader < 2
   \<and> materialize toy_env toy_vae one_sample_loader 2 = Inr ([1, 2, 2], [5, 5], [7, 7], [105, 105])
   \<and> materialize toy_env toy_vae empty_loader 2 = Inl (UnboundLocalError ''shapeI'')"
  by (simp add: one_sample_loader_def empty_loader_def toy_vae_def toy_env_def Let_def
      upt_0_2)

text \<open>The index batches of a \<^verbatim>\<open>DataLoader\<close> are the sampler's indices, in order.\<close>

lemma concat_batch_sampler: "concat (batch_sampler batch_size batch sampler) = batch @ sampler"
  by (induction sampler arbitrary: batch) (simp_all add: Let_def)

text \<open>
  C2. The index subset that was drawn is to select the samples of both datasets. In the
  code \<^verbatim>\<open>SequentialSampler(subset_indices)\<close> yields the positions
  \<open>0, ..., len(subset_indices) - 1\<close>: the value of \<^verbatim>\<open>get_fid_value\<close> is the same for every
  draw of one size, and the samples both dataloaders fetch are those at the first
  \<open>num_samples\<close> positions, whichever indices were drawn.
\<close>

theorem get_fid_value_draw_unused:
  "get_fid_value env dataloader vae_model batch_size subset_indices
     = get_fid_value env dataloader vae_model batch_size [0..<length subset_indices]
   \<and> concat (batch_sampler batch_size [] (SequentialSampler subset_indices))
     = [0..<length subset_indices]"
proof
  have same: "build_dataloaders env shapeI oi ol vo batch_size subset_indices
      = build_dataloaders env shapeI oi ol vo batch_size [0..<length subset_indices]"
    for shapeI oi ol vo
    by (simp add: SequentialSampler_def)
  show "get_fid_value env dataloader vae_model batch_size subset_indices
     = get_fid_value env dataloader vae_model batch_size [0..<length subset_indices]"
    unfolding get_fid_value.simps by (subst same) (rule refl)
next
  show "concat (batch_sampler batch_size [] (SequentialSampler subset_indices))
     = [0..<length subset_indices]"
    by (simp add: concat_batch_sampler SequentialSampler_def)
qed

text \<open>
  A dataset of \<open>FID_EVAL_SIZE + 1\<close> samples and the draw \<open>1, ..., FID_EVAL_SIZE\<close>: sample 0
  is fetched although it was not drawn, and sample \<open>FID_EVAL_SIZE\<close> was drawn and is not
  fetched.
\<close>

theorem get_fid_value_draw_unused_witness:
  "is_draw (Suc FID_EVAL_SIZE) (min FID_EVAL_SIZE (Suc FID_EVAL_SIZE)) [Suc 0..<Suc FID_EVAL_SIZE]
   \<and> concat (batch_sampler 128 [] (SequentialSampler [Suc 0..<Suc FID_EVAL_SIZE]))
       = [0..<FID_EVAL_SIZE]
   \<and> 0 \<in> set [0..<FID_EVAL_SIZE] \<and> 0 \<notin> set [Suc 0..<Suc FID_EVAL_SIZE]
   \<and> FID_EVAL_SIZE \<in> set [Suc 0..<Suc FID_EVAL_SIZE] \<and> FID_EVAL_SIZE \<notin> set [0..<FID_EVAL_SIZE]"
proof -
  have pos: "0 < FID_EVAL_SIZE" by (simp add: FID_EVAL_SIZE_def)
  have draw: "is_draw (Suc FID_EVAL_SIZE) (min FID_EVAL_SIZE (Suc FID_EVAL_SIZE))
      [Suc 0..<Suc FID_EVAL_SIZE]"
    by (simp add: is_draw_def list_all_iff del: upt_Suc)
  have used: "concat (batch_sampler 128 [] (SequentialSampler [Suc 0..<Suc FID_EVAL_SIZE]))
       = [0..<FID_EVAL_SIZE]"
    using get_fid_value_draw_unused[of toy_env empty_loader toy_vae 128
        "[Suc 0..<Suc FID_EVAL_SIZE]", THEN conjunct2]
    by (simp del: upt_Suc)
  show ?thesis using pos draw used by (simp del: upt_Suc)
qed

end
